theory Spec2Isabelle
  imports Complex_Main "HOL-Library.Word" "HOL-Library.Sublist"
begin

section \<open>Physical units (eeros/SIUnit.hpp)\<close>

text \<open>
  The exponents of \<open>SIUnit\<close> are C++ \<open>int\<close> members: 32-bit two's complement values.
  No arithmetic is performed on them; they are only stored and compared, and the
  comparison is the signed one. The member \<open>length\<close> is called \<open>length_si\<close> here, since
  \<open>length\<close> is the list function of HOL.
\<close>

type_synonym cint = "32 word"

record SIUnit =
  length_si :: cint
  mass :: cint
  time :: cint
  electric_current :: cint
  thermodynamic_temperature :: cint
  amount_of_substance :: cint
  luminous_intensity :: cint
  radian :: bool

text \<open>
  \<open>SIUnit::create<Length, Mass, ..., Radian>()\<close>: the body is a single \<open>return\<close> of the
  aggregate built by the private constructor. No \<open>static_assert\<close> is active in it.
\<close>

definition create ::
  "cint \<Rightarrow> cint \<Rightarrow> cint \<Rightarrow> cint \<Rightarrow> cint \<Rightarrow> cint \<Rightarrow> cint \<Rightarrow> bool \<Rightarrow> SIUnit" where
  "create Length Mass Time Electric_Current Thermodynamic_Temperature Amount_Of_Substance
      Luminous_Intensity Radian =
     \<lparr>length_si = Length, mass = Mass, time = Time, electric_current = Electric_Current,
      thermodynamic_temperature = Thermodynamic_Temperature,
      amount_of_substance = Amount_Of_Substance,
      luminous_intensity = Luminous_Intensity, radian = Radian\<rparr>"

text \<open>\<open>SIUnit::create()\<close> with every template argument defaulted.\<close>

definition create_default :: SIUnit where
  "create_default = create 0 0 0 0 0 0 0 False"

text \<open>\<open>make_index_sequence<N>\<close> and \<open>createArray\<close>, \<open>generateNSizeArray\<close> built on it.\<close>

definition make_index_sequence :: "nat \<Rightarrow> nat list" where
  "make_index_sequence n = [0..<n]"

definition createArray :: "nat list \<Rightarrow> SIUnit list" where
  "createArray Is = map (\<lambda>i. create_default) Is"

definition generateNSizeArray :: "nat \<Rightarrow> SIUnit list" where
  "generateNSizeArray n = createArray (make_index_sequence n)"

definition Watt :: SIUnit where "Watt = create 2 1 (- 3) 0 0 0 0 False"
definition Newton :: SIUnit where "Newton = create 1 1 (- 2) 0 0 0 0 False"
definition Joule :: SIUnit where "Joule = create 2 1 (- 2) 0 0 0 0 False"
definition Volt :: SIUnit where "Volt = create 2 1 (- 3) (- 1) 0 0 0 False"
definition Radian :: SIUnit where "Radian = create 0 0 0 0 0 0 0 True"

subsection \<open>The defaulted comparison operators\<close>

text \<open>
  \<open>std::strong_ordering\<close> has the values \<open>less\<close>, \<open>equal\<close> and \<open>greater\<close>; they carry the
  suffix \<open>_so\<close> here. The built-in \<open><=>\<close> on \<open>int\<close> compares the signed values, the one
  on \<open>bool\<close> has \<open>false < true\<close>.
\<close>

datatype strong_ordering = less_so | equal_so | greater_so

definition cmp_int :: "cint \<Rightarrow> cint \<Rightarrow> strong_ordering" where
  "cmp_int a b = (if a <s b then less_so else if b <s a then greater_so else equal_so)"

definition cmp_bool :: "bool \<Rightarrow> bool \<Rightarrow> strong_ordering" where
  "cmp_bool a b =
     (if \<not> a \<and> b then less_so else if a \<and> \<not> b then greater_so else equal_so)"

text \<open>
  A defaulted \<open>operator<=>\<close> compares the members in declaration order and returns the
  first result that is not \<open>equal\<close>, and \<open>equal\<close> when there is none.
\<close>

fun first_nonequal :: "strong_ordering list \<Rightarrow> strong_ordering" where
  "first_nonequal [] = equal_so"
| "first_nonequal (c # cs) = (if c \<noteq> equal_so then c else first_nonequal cs)"

definition three_way :: "SIUnit \<Rightarrow> SIUnit \<Rightarrow> strong_ordering" where
  "three_way u v = first_nonequal
     [cmp_int (length_si u) (length_si v),
      cmp_int (mass u) (mass v),
      cmp_int (time u) (time v),
      cmp_int (electric_current u) (electric_current v),
      cmp_int (thermodynamic_temperature u) (thermodynamic_temperature v),
      cmp_int (amount_of_substance u) (amount_of_substance v),
      cmp_int (luminous_intensity u) (luminous_intensity v),
      cmp_bool (radian u) (radian v)]"

text \<open>A defaulted \<open>operator==\<close> is the conjunction of the member equalities, in order.\<close>

definition operator_eq :: "SIUnit \<Rightarrow> SIUnit \<Rightarrow> bool" where
  "operator_eq u v \<longleftrightarrow>
     length_si u = length_si v \<and> mass u = mass v \<and> time u = time v \<and>
     electric_current u = electric_current v \<and>
     thermodynamic_temperature u = thermodynamic_temperature v \<and>
     amount_of_substance u = amount_of_substance v \<and>
     luminous_intensity u = luminous_intensity v \<and> radian u = radian v"

text \<open>\<open>u < v\<close> and \<open>u <= v\<close> are rewritten by the language to \<open>(u <=> v) < 0\<close> and \<open>(u <=> v) <= 0\<close>.\<close>

definition operator_lt :: "SIUnit \<Rightarrow> SIUnit \<Rightarrow> bool" where
  "operator_lt u v \<longleftrightarrow> three_way u v = less_so"

definition operator_le :: "SIUnit \<Rightarrow> SIUnit \<Rightarrow> bool" where
  "operator_le u v \<longleftrightarrow> three_way u v \<noteq> greater_so"

text \<open>
  The specification's ordering, stated independently of the operator: the lexicographic
  order of HOL's lists on the eight fields read as integers, in the order of declaration.
\<close>

definition field_key :: "SIUnit \<Rightarrow> int list" where
  "field_key u = [sint (length_si u), sint (mass u), sint (time u), sint (electric_current u),
     sint (thermodynamic_temperature u), sint (amount_of_substance u),
     sint (luminous_intensity u), of_bool (radian u)]"

definition lex_less :: "SIUnit \<Rightarrow> SIUnit \<Rightarrow> bool" where
  "lex_less u v \<longleftrightarrow> (field_key u, field_key v) \<in> lexord {(a, b). a < b}"

section \<open>Signals and ports\<close>

text \<open>
  Modelled from the spec: the classes \<open>Signal\<close>, \<open>Input\<close> and \<open>Output\<close> (the headers
  \<open>eeros/control/Signal.hpp\<close>, \<open>Input.hpp\<close> and \<open>Output.hpp\<close> are not among the
  sources). A signal is a value with a logical timestamp, and the timestamp may be
  empty.
\<close>

record 'a Signal =
  sig_value :: 'a
  sig_timestamp :: "nat option"

text \<open>
  Modelled from the spec: \<open>Signal::clear\<close>, missing with the class. It resets the value
  to the zero of its type and the timestamp to empty.
\<close>

definition clear :: "'a::zero Signal \<Rightarrow> 'a Signal" where
  "clear s = s\<lparr>sig_value := 0, sig_timestamp := None\<rparr>"

definition getValue :: "'a Signal \<Rightarrow> 'a" where
  "getValue s = sig_value s"

definition setValue :: "'a \<Rightarrow> 'a Signal \<Rightarrow> 'a Signal" where
  "setValue v s = s\<lparr>sig_value := v\<rparr>"

definition getTimestamp :: "'a Signal \<Rightarrow> nat option" where
  "getTimestamp s = sig_timestamp s"

definition setTimestamp :: "nat option \<Rightarrow> 'a Signal \<Rightarrow> 'a Signal" where
  "setTimestamp t s = s\<lparr>sig_timestamp := t\<rparr>"

text \<open>
  Modelled from the spec: a port, the common part of \<open>Input<T, U>\<close> and \<open>Output<T, U>\<close>.
  It is tagged with its unit \<open>U\<close>, holds one signal and a back-reference to the owning
  block (a block is referred to by its address). \<open>owner_set_count\<close> counts the calls of
  \<open>setOwner\<close> on the port, so that "exactly once" can be stated.
\<close>

type_synonym block_ref = nat

record 'a Port =
  port_unit :: SIUnit
  signal :: "'a Signal"
  owner :: "block_ref option"
  owner_set_count :: nat

text \<open>
  Modelled from the spec: the default constructor of a port, \<open>Input<T, U>{}\<close> and
  \<open>Output<T, U>{}\<close>. The signal a fresh port holds is a parameter, \<open>s0\<close>.
\<close>

definition new_Port :: "SIUnit \<Rightarrow> 'a Signal \<Rightarrow> 'a Port" where
  "new_Port U s0 = \<lparr>port_unit = U, signal = s0, owner = None, owner_set_count = 0\<rparr>"

text \<open>Modelled from the spec: \<open>setOwner\<close> and \<open>getSignal\<close> of a port.\<close>

definition setOwner :: "block_ref \<Rightarrow> 'a Port \<Rightarrow> 'a Port" where
  "setOwner b p = p\<lparr>owner := Some b, owner_set_count := Suc (owner_set_count p)\<rparr>"

definition getSignal :: "'a Port \<Rightarrow> 'a Signal" where
  "getSignal p = signal p"

text \<open>
  Modelled from the spec: the constructor \<open>Input<T, U>(owner)\<close>, which \<open>Mul\<close> uses for its
  two inputs. The owner is given at construction; \<open>setOwner\<close> is not called.
\<close>

definition new_Port_owned :: "SIUnit \<Rightarrow> 'a Signal \<Rightarrow> block_ref \<Rightarrow> 'a Port" where
  "new_Port_owned U s0 b = \<lparr>port_unit = U, signal = s0, owner = Some b, owner_set_count = 0\<rparr>"

section \<open>The generic block (eeros/control/Blockio.hpp)\<close>

text \<open>
  The three concepts on the port count, a \<open>uint8_t\<close>. \<open>None\<close> and \<open>One\<close> are constructors
  of HOL, so the three names carry the suffix \<open>_concept\<close>.
\<close>

definition None_concept :: "8 word \<Rightarrow> bool" where
  "None_concept n \<longleftrightarrow> n = 0"

definition One_concept :: "8 word \<Rightarrow> bool" where
  "One_concept n \<longleftrightarrow> n = 1"

definition Multiple_concept :: "8 word \<Rightarrow> bool" where
  "Multiple_concept n \<longleftrightarrow> n > 1"

text \<open>
  The type of the member \<open>in\<close> (and of \<open>out\<close>) is computed by \<open>generateNInputs\<close>: the
  struct \<open>Empty\<close>, one port, a \<open>std::array\<close> of ports that all have the default unit, or
  a \<open>std::tuple\<close> of ports with a unit each.
\<close>

datatype 'a storage = Empty | Single "'a Port" | Array "'a Port list" | Tuple "'a Port list"

fun ports_of :: "'a storage \<Rightarrow> 'a Port list" where
  "ports_of Empty = []"
| "ports_of (Single p) = [p]"
| "ports_of (Array ps) = ps"
| "ports_of (Tuple ps) = ps"

fun is_Array :: "'a storage \<Rightarrow> bool" where
  "is_Array (Array ps) = True"
| "is_Array _ = False"

fun is_Tuple :: "'a storage \<Rightarrow> bool" where
  "is_Tuple (Tuple ps) = True"
| "is_Tuple _ = False"

text \<open>
  \<open>createInputs\<close>: \<open>std::ranges::all_of(Uin, e == SIUnit::create())\<close> selects the array;
  otherwise the tuple has the port of unit \<open>Uin[Is]\<close> at each index of the sequence.
  \<open>createOutputs\<close> is the same function on \<open>Uout\<close> and \<open>M\<close>. The header exists in
  two copies; the model follows the first, documented one. The second copy differs in
  \<open>createOutputs\<close> alone, which tests \<open>Uin\<close> and builds an array of \<open>N\<close> ports there.
\<close>

definition createInputs :: "SIUnit list \<Rightarrow> 8 word \<Rightarrow> 'a Signal \<Rightarrow> nat list \<Rightarrow> 'a storage" where
  "createInputs Uin N s0 Is =
     (let allDimensionLess = list_all (\<lambda>e. operator_eq e create_default) Uin in
      if allDimensionLess then Array (replicate (unat N) (new_Port create_default s0))
      else Tuple (map (\<lambda>i. new_Port (Uin ! i) s0) Is))"

definition generateNInputs :: "SIUnit list \<Rightarrow> 8 word \<Rightarrow> 'a Signal \<Rightarrow> 'a storage" where
  "generateNInputs Uin N s0 =
     (if One_concept N then Single (new_Port (Uin ! 0) s0)
      else if None_concept N then Empty
      else createInputs Uin N s0 (make_index_sequence (unat N)))"

definition createOutputs :: "SIUnit list \<Rightarrow> 8 word \<Rightarrow> 'a Signal \<Rightarrow> nat list \<Rightarrow> 'a storage" where
  "createOutputs Uout M s0 Is =
     (let allDimensionLess = list_all (\<lambda>e. operator_eq e create_default) Uout in
      if allDimensionLess then Array (replicate (unat M) (new_Port create_default s0))
      else Tuple (map (\<lambda>i. new_Port (Uout ! i) s0) Is))"

definition generateMOutputs :: "SIUnit list \<Rightarrow> 8 word \<Rightarrow> 'a Signal \<Rightarrow> 'a storage" where
  "generateMOutputs Uout M s0 =
     (if One_concept M then Single (new_Port (Uout ! 0) s0)
      else if None_concept M then Empty
      else createOutputs Uout M s0 (make_index_sequence (unat M)))"

text \<open>
  The block. \<open>this\<close> is its address and \<open>name\<close> the name kept by the base class \<open>Block\<close>
  (read by \<open>getName\<close>); \<open>N\<close> and \<open>M\<close> are the template arguments. The member \<open>in\<close> is
  called \<open>inp\<close>. The stored \<open>std::function<void()>\<close> is a transformer of the two port
  stores of the block.
\<close>

record ('tin, 'tout) Blockio =
  this :: block_ref
  name :: string
  N :: "8 word"
  M :: "8 word"
  func :: "'tin storage \<times> 'tout storage \<Rightarrow> 'tin storage \<times> 'tout storage"
  inp :: "'tin storage"
  out :: "'tout storage"

text \<open>
  \<open>std::apply\<close> with a fold expression over every element of an array or a tuple.
\<close>

fun apply_each :: "('a Port \<Rightarrow> 'a Port) \<Rightarrow> 'a storage \<Rightarrow> 'a storage" where
  "apply_each f (Array ps) = Array (map f ps)"
| "apply_each f (Tuple ps) = Tuple (map f ps)"
| "apply_each f st = st"

definition clear_signal :: "'a::zero Port \<Rightarrow> 'a Port" where
  "clear_signal p = p\<lparr>signal := clear (getSignal p)\<rparr>"

definition initalizeInputsAndOutputs ::
  "('tin, 'tout::zero, 'z) Blockio_scheme \<Rightarrow> ('tin, 'tout, 'z) Blockio_scheme" where
  "initalizeInputsAndOutputs b =
     (let b1 =
        (if One_concept (M b) then
           (case out b of
              Single p \<Rightarrow> b\<lparr>out := Single (clear_signal (setOwner (this b) p))\<rparr>
            | _ \<Rightarrow> b)
         else if Multiple_concept (M b) then
           b\<lparr>out := apply_each clear_signal (apply_each (setOwner (this b)) (out b))\<rparr>
         else b)
      in
        (if One_concept (N b1) then
           (case inp b1 of
              Single p \<Rightarrow> b1\<lparr>inp := Single (setOwner (this b1) p)\<rparr>
            | _ \<Rightarrow> b1)
         else if Multiple_concept (N b1) then
           b1\<lparr>inp := apply_each (setOwner (this b1)) (inp b1)\<rparr>
         else b1))"

text \<open>
  The constructor \<open>Blockio(f)\<close>. The address and the name of the base object and the
  signals of fresh ports are parameters. \<open>Blockio()\<close> passes the empty lambda.
\<close>

definition Blockio_ctor ::
  "block_ref \<Rightarrow> string \<Rightarrow> 8 word \<Rightarrow> 8 word \<Rightarrow> SIUnit list \<Rightarrow> SIUnit list \<Rightarrow>
   ('tin storage \<times> 'tout storage \<Rightarrow> 'tin storage \<times> 'tout storage) \<Rightarrow>
   'tin Signal \<Rightarrow> 'tout Signal \<Rightarrow> ('tin, 'tout::zero) Blockio" where
  "Blockio_ctor self nm n m Uin Uout f s_in s_out =
     initalizeInputsAndOutputs
       \<lparr>this = self, name = nm, N = n, M = m, func = f,
        inp = generateNInputs Uin n s_in, out = generateMOutputs Uout m s_out\<rparr>"

definition Blockio_default_ctor ::
  "block_ref \<Rightarrow> string \<Rightarrow> 8 word \<Rightarrow> 8 word \<Rightarrow> SIUnit list \<Rightarrow> SIUnit list \<Rightarrow>
   'tin Signal \<Rightarrow> 'tout Signal \<Rightarrow> ('tin, 'tout::zero) Blockio" where
  "Blockio_default_ctor self nm n m Uin Uout s_in s_out =
     Blockio_ctor self nm n m Uin Uout (\<lambda>st. st) s_in s_out"

definition run :: "('tin, 'tout, 'z) Blockio_scheme \<Rightarrow> ('tin, 'tout, 'z) Blockio_scheme" where
  "run b = (case func b (inp b, out b) of (i, oo) \<Rightarrow> b\<lparr>inp := i, out := oo\<rparr>)"

subsection \<open>Port access\<close>

text \<open>
  An access that the compiler rejects (a \<open>requires\<close> clause that does not hold, a
  \<open>std::get\<close> past the end, \<open>operator[]\<close> on a tuple) is the error \<open>ill_formed\<close>; the
  exception thrown at run time is \<open>IndexOutOfBoundsFault\<close> with its message.
\<close>

datatype error = IndexOutOfBoundsFault string | ill_formed

definition getIn_I :: "('tin, 'tout, 'z) Blockio_scheme \<Rightarrow> nat \<Rightarrow> error + 'tin Port" where
  "getIn_I b I =
     (if \<not> Multiple_concept (N b) then Inl ill_formed
      else case inp b of
          Array ps \<Rightarrow> if I < length ps then Inr (ps ! I) else Inl ill_formed
        | Tuple ps \<Rightarrow> if I < length ps then Inr (ps ! I) else Inl ill_formed
        | _ \<Rightarrow> Inl ill_formed)"

definition getIn_index :: "('tin, 'tout, 'z) Blockio_scheme \<Rightarrow> 8 word \<Rightarrow> error + 'tin Port" where
  "getIn_index b index =
     (if \<not> Multiple_concept (N b) then Inl ill_formed
      else case inp b of
          Array ps \<Rightarrow>
            if index \<ge> N b then
              Inl (IndexOutOfBoundsFault
                (''Trying to get inexistent element of input vector in block '' @ [CHR 0x27]
                  @ name b @ [CHR 0x27]))
            else Inr (ps ! unat index)
        | _ \<Rightarrow> Inl ill_formed)"

definition getIn :: "('tin, 'tout, 'z) Blockio_scheme \<Rightarrow> error + 'tin Port" where
  "getIn b =
     (if \<not> One_concept (N b) then Inl ill_formed
      else case inp b of Single p \<Rightarrow> Inr p | _ \<Rightarrow> Inl ill_formed)"

definition getOut_I :: "('tin, 'tout, 'z) Blockio_scheme \<Rightarrow> nat \<Rightarrow> error + 'tout Port" where
  "getOut_I b I =
     (if \<not> Multiple_concept (M b) then Inl ill_formed
      else case out b of
          Array ps \<Rightarrow> if I < length ps then Inr (ps ! I) else Inl ill_formed
        | Tuple ps \<Rightarrow> if I < length ps then Inr (ps ! I) else Inl ill_formed
        | _ \<Rightarrow> Inl ill_formed)"

definition getOut_index :: "('tin, 'tout, 'z) Blockio_scheme \<Rightarrow> 8 word \<Rightarrow> error + 'tout Port" where
  "getOut_index b index =
     (if \<not> Multiple_concept (M b) then Inl ill_formed
      else case out b of
          Array ps \<Rightarrow>
            if index \<ge> M b then
              Inl (IndexOutOfBoundsFault
                (''Trying to get inexistent element of output vector in block '' @ [CHR 0x27]
                  @ name b @ [CHR 0x27]))
            else Inr (ps ! unat index)
        | _ \<Rightarrow> Inl ill_formed)"

definition getOut :: "('tin, 'tout, 'z) Blockio_scheme \<Rightarrow> error + 'tout Port" where
  "getOut b =
     (if \<not> One_concept (M b) then Inl ill_formed
      else case out b of Single p \<Rightarrow> Inr p | _ \<Rightarrow> Inl ill_formed)"

text \<open>The owner and the number of \<open>setOwner\<close> calls of every port of a block, in order.\<close>

definition owners :: "('tin, 'tout, 'z) Blockio_scheme \<Rightarrow> (block_ref option \<times> nat) list" where
  "owners b = map (\<lambda>p. (owner p, owner_set_count p)) (ports_of (inp b))
            @ map (\<lambda>p. (owner p, owner_set_count p)) (ports_of (out b))"

section \<open>The demultiplexer (eeros/control/DeMux.hpp)\<close>

text \<open>
  \<open>DeMux<N, T, C, Uin, Uout>\<close> is a \<open>Blockio<1, N, C, T, MakeUnitArray<Uin>::value, Uout>\<close>;
  \<open>MakeUnitArray\<close> is not among the sources and has to be the array of the one unit
  \<open>Uin\<close>. The input value, a \<open>Matrix<N, 1, T>\<close>, is a list of \<open>N\<close> elements and
  \<open>getValue()(i)\<close> its \<open>i\<close>-th element. \<open>N\<close> is a \<open>uint32_t\<close> here and becomes the
  \<open>uint8_t\<close> argument of \<open>Blockio\<close>.
\<close>

definition DeMux_ctor ::
  "block_ref \<Rightarrow> string \<Rightarrow> 32 word \<Rightarrow> SIUnit \<Rightarrow> SIUnit list \<Rightarrow>
   'a list Signal \<Rightarrow> 'a Signal \<Rightarrow> ('a list, 'a::zero) Blockio" where
  "DeMux_ctor self nm n Uin Uout s_in s_out =
     Blockio_default_ctor self nm 1 (ucast n) [Uin] Uout s_in s_out"

text \<open>One pass of the loop body of \<open>DeMux::run\<close>, at index \<open>i\<close>.\<close>

definition DeMux_body :: "32 word \<Rightarrow> 'a list Port \<Rightarrow> 'a Port list \<Rightarrow> 'a Port list" where
  "DeMux_body i p outs =
     (let outs1 = outs[unat i := (outs ! unat i)
            \<lparr>signal := setValue (getValue (getSignal p) ! unat i) (getSignal (outs ! unat i))\<rparr>]
      in outs1[unat i := (outs1 ! unat i)
            \<lparr>signal := setTimestamp (getTimestamp (getSignal p)) (getSignal (outs1 ! unat i))\<rparr>])"

function DeMux_loop :: "32 word \<Rightarrow> 32 word \<Rightarrow> 'a list Port \<Rightarrow> 'a Port list \<Rightarrow> 'a Port list" where
  "DeMux_loop i n p outs =
     (if i < n then DeMux_loop (i + 1) n p (DeMux_body i p outs) else outs)"
  by pat_completeness auto
termination
proof (relation "measure (\<lambda>(i, n, p, outs). unat n - unat i)")
  show "wf (measure (\<lambda>(i, n, p, outs). unat n - unat i))"
    by simp
next
  fix i n :: "32 word" and p :: "'a list Port" and outs :: "'a Port list"
  assume "i < n"
  then have "unat i < unat n"
    by (simp add: word_less_nat_alt)
  moreover have "unat n < 2 ^ 32"
    using unsigned_less [of n] by simp
  ultimately have "unat i + unat (1 :: 32 word) < 2 ^ LENGTH(32)"
    by simp
  then have "unat (i + 1) = unat i + unat (1 :: 32 word)"
    by (simp only: unat_add_lem)
  with \<open>unat i < unat n\<close> have "unat n - unat (i + 1) < unat n - unat i"
    by simp
  then show "((i + 1, n, p, DeMux_body i p outs), (i, n, p, outs))
      \<in> measure (\<lambda>(i, n, p, outs). unat n - unat i)"
    by simp
qed

declare DeMux_loop.simps [simp del]

text \<open>
  \<open>DeMux::run\<close>. \<open>this->out[i]\<close> needs the array and \<open>this->in.getSignal()\<close> the single
  input; on any other storage the member function does not compile.
\<close>

definition DeMux_run ::
  "32 word \<Rightarrow> ('a list, 'a, 'z) Blockio_scheme \<Rightarrow> error + ('a list, 'a, 'z) Blockio_scheme" where
  "DeMux_run n b =
     (case inp b of
        Single p \<Rightarrow>
          (case out b of
             Array outs \<Rightarrow> Inr (b\<lparr>out := Array (DeMux_loop 0 n p outs)\<rparr>)
           | _ \<Rightarrow> Inl ill_formed)
      | _ \<Rightarrow> Inl ill_formed)"

section \<open>The multiplier (eeros/control/Mul.hpp)\<close>

text \<open>
  \<open>Mul<In1T, In2T, OutT, Uin, Uout>\<close> is a \<open>Blockio<0, 1, OutT, OutT, {}, {Uout}>\<close> with
  two inputs of its own, of the value types \<open>In1T\<close> and \<open>In2T\<close>, constructed with the block
  as their owner.
\<close>

record ('in1t, 'in2t, 'outt) Mul = "('outt, 'outt) Blockio" +
  in1 :: "'in1t Port"
  in2 :: "'in2t Port"

definition Mul_ctor ::
  "block_ref \<Rightarrow> string \<Rightarrow> SIUnit list \<Rightarrow> SIUnit \<Rightarrow> 'in1t Signal \<Rightarrow> 'in2t Signal \<Rightarrow>
   'outt Signal \<Rightarrow> ('in1t, 'in2t, 'outt::zero) Mul" where
  "Mul_ctor self nm Uin Uout s1 s2 s_out =
     Blockio.extend
       (Blockio_default_ctor self nm 0 1 (generateNSizeArray 0) [Uout] s_out s_out)
       (Mul.fields (new_Port_owned (Uin ! 0) s1 self) (new_Port_owned (Uin ! 1) s2 self))"

text \<open>
  \<open>Mul::run\<close>. The statement \<open>prod = in1.getSignal().getValue() * in2.getSignal().getValue()\<close>
  applies the \<open>operator*\<close> that the language selects for \<open>In1T\<close> and \<open>In2T\<close> and assigns
  its result to \<open>OutT prod\<close>, which converts it to \<open>OutT\<close>. Both are fixed by the template
  arguments; they are the parameters \<open>times_op\<close> and \<open>to_OutT\<close>. With the default
  arguments (three times \<open>double\<close>) they are the multiplication of the type and the
  identity.
\<close>

definition Mul_run ::
  "('in1t \<Rightarrow> 'in2t \<Rightarrow> 'r) \<Rightarrow> ('r \<Rightarrow> 'outt) \<Rightarrow> ('in1t, 'in2t, 'outt) Mul \<Rightarrow>
   error + ('in1t, 'in2t, 'outt) Mul" where
  "Mul_run times_op to_OutT m =
     (case out m of
        Single p \<Rightarrow>
          (let prod = to_OutT
                 (times_op (getValue (getSignal (in1 m))) (getValue (getSignal (in2 m))));
               p1 = p\<lparr>signal := setValue prod (getSignal p)\<rparr>;
               p2 = p1\<lparr>signal := setTimestamp (getTimestamp (getSignal (in1 m))) (getSignal p1)\<rparr>
           in Inr (m\<lparr>out := Single p2\<rparr>))
      | _ \<Rightarrow> Inl ill_formed)"

definition getIn1 :: "('in1t, 'in2t, 'outt) Mul \<Rightarrow> 'in1t Port" where
  "getIn1 m = in1 m"

definition getIn2 :: "('in1t, 'in2t, 'outt) Mul \<Rightarrow> 'in2t Port" where
  "getIn2 m = in2 m"

section \<open>The scalable input of the hardware abstraction (eeros/hal/ScalableInput.hpp)\<close>

text \<open>
  The base class \<open>hal::Input<T>\<close> keeps the identifier and the library handle given to
  the constructor; the five other members are those of \<open>ScalableInput\<close>, in the order of
  declaration. The member \<open>unit\<close> is called \<open>unit_si\<close>.
\<close>

record 'a ScalableInput =
  input_id :: string
  libHandle :: nat
  scale :: 'a
  offset :: 'a
  unit_si :: SIUnit
  minIn :: 'a
  maxIn :: 'a

definition ScalableInput_ctor ::
  "string \<Rightarrow> nat \<Rightarrow> 'a \<Rightarrow> 'a \<Rightarrow> 'a \<Rightarrow> 'a \<Rightarrow> SIUnit \<Rightarrow> 'a ScalableInput" where
  "ScalableInput_ctor ident handle sc off mi ma u =
     \<lparr>input_id = ident, libHandle = handle, scale = sc, offset = off, unit_si = u,
      minIn = mi, maxIn = ma\<rparr>"

definition getScale :: "'a ScalableInput \<Rightarrow> 'a" where "getScale x = scale x"
definition getOffset :: "'a ScalableInput \<Rightarrow> 'a" where "getOffset x = offset x"
definition getUnit :: "'a ScalableInput \<Rightarrow> SIUnit" where "getUnit x = unit_si x"
definition getMinIn :: "'a ScalableInput \<Rightarrow> 'a" where "getMinIn x = minIn x"
definition getMaxIn :: "'a ScalableInput \<Rightarrow> 'a" where "getMaxIn x = maxIn x"

definition setScale :: "'a \<Rightarrow> 'a ScalableInput \<Rightarrow> 'a ScalableInput" where
  "setScale s x = x\<lparr>scale := s\<rparr>"
definition setOffset :: "'a \<Rightarrow> 'a ScalableInput \<Rightarrow> 'a ScalableInput" where
  "setOffset o' x = x\<lparr>offset := o'\<rparr>"
definition setUnit :: "SIUnit \<Rightarrow> 'a ScalableInput \<Rightarrow> 'a ScalableInput" where
  "setUnit unit x = x\<lparr>unit_si := unit\<rparr>"
definition setMinIn :: "'a \<Rightarrow> 'a ScalableInput \<Rightarrow> 'a ScalableInput" where
  "setMinIn minI x = x\<lparr>minIn := minI\<rparr>"
definition setMaxIn :: "'a \<Rightarrow> 'a ScalableInput \<Rightarrow> 'a ScalableInput" where
  "setMaxIn maxI x = x\<lparr>maxIn := maxI\<rparr>"

section \<open>Blocks of the scenarios\<close>

text \<open>
  The blocks the scenarios of the specification speak of, built by the constructors above:
  the multiplier with \<open>3.0 @ 10\<close> and \<open>4.0 @ 20\<close> at its inputs, the demultiplexer of
  three outputs with \<open>[1, 2, 3] @ 5\<close> at its input, a block of two inputs without
  declared units, and a block whose two inputs are both declared in watt. Two more blocks:
  a \<open>Mul<int, int, uint8_t>\<close> with 20 at both inputs, and the block of two inputs in a
  later state, in which the two inputs and the two outputs hold different signals.
\<close>

definition scenario_Mul :: "(real, real, real) Mul" where
  "scenario_Mul = Mul_ctor 1 ''mul'' (generateNSizeArray 2) create_default
     \<lparr>sig_value = 3, sig_timestamp = Some 10\<rparr> \<lparr>sig_value = 4, sig_timestamp = Some 20\<rparr>
     \<lparr>sig_value = 7, sig_timestamp = Some 1\<rparr>"

definition scenario_Mul_uint8 :: "(32 word, 32 word, 8 word) Mul" where
  "scenario_Mul_uint8 = Mul_ctor 5 ''narrow'' (generateNSizeArray 2) create_default
     \<lparr>sig_value = 20, sig_timestamp = Some 10\<rparr> \<lparr>sig_value = 20, sig_timestamp = Some 20\<rparr>
     \<lparr>sig_value = 7, sig_timestamp = Some 1\<rparr>"

definition scenario_DeMux :: "(int list, int) Blockio" where
  "scenario_DeMux = DeMux_ctor 2 ''demux'' 3 create_default (generateNSizeArray 3)
     \<lparr>sig_value = [1, 2, 3], sig_timestamp = Some 5\<rparr> \<lparr>sig_value = 9, sig_timestamp = Some 4\<rparr>"

definition scenario_two_inputs :: "(int, int) Blockio" where
  "scenario_two_inputs = Blockio_default_ctor 3 ''blk'' 2 2
     (generateNSizeArray 2) (generateNSizeArray 2)
     \<lparr>sig_value = 5, sig_timestamp = Some 9\<rparr> \<lparr>sig_value = 7, sig_timestamp = Some 3\<rparr>"

definition scenario_watt_inputs :: "(int, int) Blockio" where
  "scenario_watt_inputs = Blockio_default_ctor 4 ''sum'' 2 2 [Watt, Watt] [Watt, Watt]
     \<lparr>sig_value = 5, sig_timestamp = Some 9\<rparr> \<lparr>sig_value = 7, sig_timestamp = Some 3\<rparr>"

definition port_with :: "int \<Rightarrow> nat \<Rightarrow> int Port" where
  "port_with v t = \<lparr>port_unit = create_default,
     signal = \<lparr>sig_value = v, sig_timestamp = Some t\<rparr>, owner = Some 3, owner_set_count = 1\<rparr>"

definition scenario_two_inputs_later :: "(int, int) Blockio" where
  "scenario_two_inputs_later = scenario_two_inputs
     \<lparr>inp := Array [port_with 10 1, port_with 20 2],
      out := Array [port_with 30 3, port_with 40 4]\<rparr>"

section \<open>Properties of the units\<close>

lemma cmp_int_less: "cmp_int a b = less_so \<longleftrightarrow> sint a < sint b"
  by (simp add: cmp_int_def word_sless_alt)

lemma cmp_int_equal: "cmp_int a b = equal_so \<longleftrightarrow> a = b"
  by (auto simp add: cmp_int_def word_sless_alt signed_word_eqI)

lemma cmp_int_greater: "cmp_int a b = greater_so \<longleftrightarrow> sint b < sint a"
  by (auto simp add: cmp_int_def word_sless_alt)

lemma cmp_bool_less: "cmp_bool a b = less_so \<longleftrightarrow> \<not> a \<and> b"
  by (simp add: cmp_bool_def)

lemma cmp_bool_equal: "cmp_bool a b = equal_so \<longleftrightarrow> a = b"
  by (auto simp add: cmp_bool_def)

lemma operator_eq_iff: "operator_eq u v \<longleftrightarrow> u = v"
  by (cases u, cases v) (simp add: operator_eq_def)

lemma first_nonequal_Cons_less:
  "first_nonequal (c # cs) = less_so \<longleftrightarrow> c = less_so \<or> c = equal_so \<and> first_nonequal cs = less_so"
  by simp

lemma first_nonequal_Cons_equal:
  "first_nonequal (c # cs) = equal_so \<longleftrightarrow> c = equal_so \<and> first_nonequal cs = equal_so"
  by simp

lemma three_way_equal: "three_way u v = equal_so \<longleftrightarrow> operator_eq u v"
  unfolding three_way_def operator_eq_def
  by (simp only: first_nonequal_Cons_equal cmp_int_equal cmp_bool_equal first_nonequal.simps(1) simp_thms)

lemma sint_eq_iff: "sint (a::cint) = sint b \<longleftrightarrow> a = b"
  by (auto intro: signed_word_eqI)

lemma of_bool_less_iff_int: "(of_bool a :: int) < of_bool b \<longleftrightarrow> \<not> a \<and> b"
  by (cases a; cases b) simp_all

lemma operator_lt_lex: "operator_lt u v \<longleftrightarrow> lex_less u v"
  unfolding operator_lt_def lex_less_def field_key_def three_way_def
  by (simp only: first_nonequal_Cons_less lexord_cons_cons cmp_int_less cmp_int_equal
      cmp_bool_less cmp_bool_equal mem_Collect_eq case_prod_conv sint_eq_iff
      of_bool_less_iff_int of_bool_eq_iff first_nonequal.simps(1) lexord_Nil_left
      strong_ordering.distinct list.distinct simp_thms)

lemma field_key_inject: "field_key u = field_key v \<longleftrightarrow> u = v"
  by (cases u, cases v) (simp add: field_key_def sint_eq_iff)

lemma lex_less_irrefl: "\<not> lex_less u u"
  unfolding lex_less_def by (rule lexord_irreflexive) simp

lemma lex_less_trans: "lex_less u v \<Longrightarrow> lex_less v w \<Longrightarrow> lex_less u w"
  unfolding lex_less_def
  by (erule lexord_trans, assumption) (auto simp add: trans_def)

lemma lex_less_linear: "lex_less u v \<or> u = v \<or> lex_less v u"
proof -
  have "(field_key u, field_key v) \<in> lexord {(a, b). a < b} \<or> field_key u = field_key v
      \<or> (field_key v, field_key u) \<in> lexord {(a, b). a < b}"
    by (rule lexord_linear) auto
  then show ?thesis
    by (simp add: lex_less_def field_key_inject)
qed

lemma three_way_greater: "three_way u v = greater_so \<longleftrightarrow> operator_lt v u"
proof
  assume g: "three_way u v = greater_so"
  then have "\<not> operator_lt u v" "u \<noteq> v"
    using three_way_equal [of u v] by (auto simp add: operator_lt_def operator_eq_iff)
  then show "operator_lt v u"
    using lex_less_linear [of u v] by (simp add: operator_lt_lex)
next
  assume l: "operator_lt v u"
  then have "\<not> operator_lt u v"
    using lex_less_trans [of u v u] lex_less_irrefl [of u] by (auto simp add: operator_lt_lex)
  moreover have "u \<noteq> v"
    using l lex_less_irrefl [of u] by (auto simp add: operator_lt_lex)
  ultimately show "three_way u v = greater_so"
    using three_way_equal [of u v]
    by (cases "three_way u v") (simp_all add: operator_lt_def operator_eq_iff)
qed

lemma operator_le_iff: "operator_le u v \<longleftrightarrow> operator_lt u v \<or> u = v"
  using three_way_equal [of u v]
  by (cases "three_way u v") (simp_all add: operator_le_def operator_lt_def operator_eq_iff)

lemmas unit_defs = Watt_def Newton_def Joule_def Volt_def Radian_def create_default_def
  create_def

lemmas cmp_defs = operator_lt_def operator_le_def operator_eq_def three_way_def cmp_int_def
  cmp_bool_def word_sless_alt lex_less_def field_key_def

text \<open>
  Claim C1. For all units \<open>u1\<close>, \<open>u2\<close>: \<open>u1 == u2\<close> holds exactly when the eight fields
  agree pairwise (which is equality of the two values); \<open>==\<close> is reflexive, symmetric and
  transitive; the order induced by \<open><=>\<close> is a strict total order (irreflexive,
  transitive, total), \<open><=\<close> is reflexive, antisymmetric, transitive and total, and both
  agree with the lexicographic comparison of the fields in the order of declaration.
\<close>

theorem SIUnit_comparison_total_order:
  "(operator_eq u1 u2 \<longleftrightarrow>
      length_si u1 = length_si u2 \<and> mass u1 = mass u2 \<and> time u1 = time u2 \<and>
      electric_current u1 = electric_current u2 \<and>
      thermodynamic_temperature u1 = thermodynamic_temperature u2 \<and>
      amount_of_substance u1 = amount_of_substance u2 \<and>
      luminous_intensity u1 = luminous_intensity u2 \<and> radian u1 = radian u2)
   \<and> (operator_eq u1 u2 \<longleftrightarrow> u1 = u2)
   \<and> operator_eq u1 u1
   \<and> (operator_eq u1 u2 \<longrightarrow> operator_eq u2 u1)
   \<and> (operator_eq u1 u2 \<and> operator_eq u2 u3 \<longrightarrow> operator_eq u1 u3)
   \<and> (three_way u1 u2 = equal_so \<longleftrightarrow> operator_eq u1 u2)
   \<and> (three_way a b = greater_so \<longleftrightarrow> three_way b a = less_so)
   \<and> \<not> operator_lt a a
   \<and> (operator_lt a b \<and> operator_lt b c \<longrightarrow> operator_lt a c)
   \<and> (operator_lt a b \<or> operator_eq a b \<or> operator_lt b a)
   \<and> operator_le a a
   \<and> (operator_le a b \<and> operator_le b a \<longrightarrow> operator_eq a b)
   \<and> (operator_le a b \<and> operator_le b c \<longrightarrow> operator_le a c)
   \<and> (operator_le a b \<or> operator_le b a)
   \<and> (operator_lt a b \<longleftrightarrow> lex_less a b)
   \<and> (operator_le a b \<longleftrightarrow> lex_less a b \<or> field_key a = field_key b)"
proof -
  have eq1: "operator_eq u1 u2 \<longleftrightarrow>
      length_si u1 = length_si u2 \<and> mass u1 = mass u2 \<and> time u1 = time u2 \<and>
      electric_current u1 = electric_current u2 \<and>
      thermodynamic_temperature u1 = thermodynamic_temperature u2 \<and>
      amount_of_substance u1 = amount_of_substance u2 \<and>
      luminous_intensity u1 = luminous_intensity u2 \<and> radian u1 = radian u2"
    by (simp only: operator_eq_def)
  have lt_trans: "operator_lt a b \<and> operator_lt b c \<longrightarrow> operator_lt a c"
    using lex_less_trans [of a b c] by (simp add: operator_lt_lex)
  have lt_irrefl: "\<not> operator_lt a a"
    by (simp add: operator_lt_lex lex_less_irrefl)
  have lt_lin: "operator_lt a b \<or> operator_eq a b \<or> operator_lt b a"
    using lex_less_linear [of a b] by (simp add: operator_lt_lex operator_eq_iff)
  have le_antisym: "operator_le a b \<and> operator_le b a \<longrightarrow> operator_eq a b"
    using lex_less_trans [of a b a] lex_less_irrefl [of a]
    by (auto simp add: operator_le_iff operator_lt_lex operator_eq_iff)
  have le_trans: "operator_le a b \<and> operator_le b c \<longrightarrow> operator_le a c"
    using lex_less_trans [of a b c] by (auto simp add: operator_le_iff operator_lt_lex)
  have le_lin: "operator_le a b \<or> operator_le b a"
    using lex_less_linear [of a b] by (auto simp add: operator_le_iff operator_lt_lex)
  have gr: "three_way a b = greater_so \<longleftrightarrow> three_way b a = less_so"
    by (simp add: three_way_greater operator_lt_def)
  show ?thesis
    using eq1 lt_trans lt_irrefl lt_lin le_antisym le_trans le_lin gr
    by (simp add: operator_eq_iff three_way_equal operator_le_iff operator_lt_lex field_key_inject)
qed


theorem SIUnit_comparison_total_order_witness:
  "operator_eq Watt Watt \<and> \<not> operator_eq Watt Joule
   \<and> operator_lt Newton Watt \<and> operator_lt Watt Joule \<and> operator_lt Newton Joule
   \<and> operator_le Newton Watt \<and> operator_le Watt Joule \<and> operator_le Newton Joule
   \<and> \<not> operator_le Watt Newton
   \<and> lex_less Newton Watt \<and> three_way Watt Newton = greater_so"
  using SIUnit_comparison_total_order [of Watt Watt Watt Newton Watt Joule]
    SIUnit_comparison_total_order [of Watt Joule Watt Watt Newton Joule]
  by (simp add: unit_defs cmp_defs)

text \<open>
  Claim C10. For every combination of the seven exponents and the radian flag,
  \<open>SIUnit::create\<close> returns a unit whose eight fields are exactly the arguments. No check
  rejects a combination: the function is total, also on a radian flag given together
  with exponents that are not zero, such as \<open>create<1, 0, 0, 0, 0, 0, 0, true>()\<close>.
\<close>

theorem create_returns_arguments:
  "length_si (create l m t e th a li r) = l
   \<and> mass (create l m t e th a li r) = m
   \<and> time (create l m t e th a li r) = t
   \<and> electric_current (create l m t e th a li r) = e
   \<and> thermodynamic_temperature (create l m t e th a li r) = th
   \<and> amount_of_substance (create l m t e th a li r) = a
   \<and> luminous_intensity (create l m t e th a li r) = li
   \<and> radian (create l m t e th a li r) = r
   \<and> radian (create 1 0 0 0 0 0 0 True)
   \<and> sint (length_si (create 1 0 0 0 0 0 0 True)) = 1
   \<and> sint (time (create 2 1 (- 3) 0 0 0 0 True)) = - 3"
  by (simp add: create_def)

section \<open>Properties of the generic block\<close>

subsection \<open>The storage a constructed block has\<close>

lemma Multiple_concept_iff: "Multiple_concept n \<longleftrightarrow> \<not> One_concept n \<and> \<not> None_concept n"
proof -
  have one: "n = 1 \<longleftrightarrow> unat n = 1"
    using word_unat_eq_iff [of n 1] by simp
  have zero: "n = 0 \<longleftrightarrow> unat n = 0"
    using word_unat_eq_iff [of n 0] by simp
  have "1 < n \<longleftrightarrow> 1 < unat n"
    by (simp add: word_less_nat_alt)
  then show ?thesis
    unfolding Multiple_concept_def One_concept_def None_concept_def one zero
    by auto
qed

lemma list_all_dimensionless:
  "list_all (\<lambda>e. operator_eq e create_default) U \<longleftrightarrow> (\<forall>u\<in>set U. u = create_default)"
  by (simp add: list_all_iff operator_eq_iff)

lemma createInputs_Array:
  "\<forall>u\<in>set U. u = create_default \<Longrightarrow>
     createInputs U n s Is = Array (replicate (unat n) (new_Port create_default s))"
  by (simp add: createInputs_def list_all_dimensionless)

lemma createInputs_Tuple:
  "\<not> (\<forall>u\<in>set U. u = create_default) \<Longrightarrow>
     createInputs U n s Is = Tuple (map (\<lambda>i. new_Port (U ! i) s) Is)"
  by (simp add: createInputs_def list_all_dimensionless)

lemma createOutputs_Array:
  "\<forall>u\<in>set U. u = create_default \<Longrightarrow>
     createOutputs U m s Is = Array (replicate (unat m) (new_Port create_default s))"
  by (simp add: createOutputs_def list_all_dimensionless)

lemma createOutputs_Tuple:
  "\<not> (\<forall>u\<in>set U. u = create_default) \<Longrightarrow>
     createOutputs U m s Is = Tuple (map (\<lambda>i. new_Port (U ! i) s) Is)"
  by (simp add: createOutputs_def list_all_dimensionless)

lemma initalize_fields:
  "this (initalizeInputsAndOutputs b) = this b"
  "name (initalizeInputsAndOutputs b) = name b"
  "N (initalizeInputsAndOutputs b) = N b"
  "M (initalizeInputsAndOutputs b) = M b"
  "func (initalizeInputsAndOutputs b) = func b"
  by (simp_all add: initalizeInputsAndOutputs_def Let_def split: storage.splits)

lemma out_initalize_One:
  "One_concept (M b) \<Longrightarrow> out b = Single p \<Longrightarrow>
     out (initalizeInputsAndOutputs b) = Single (clear_signal (setOwner (this b) p))"
  by (simp add: initalizeInputsAndOutputs_def Let_def split: storage.splits)

lemma out_initalize_Multiple:
  "Multiple_concept (M b) \<Longrightarrow>
     out (initalizeInputsAndOutputs b)
       = apply_each clear_signal (apply_each (setOwner (this b)) (out b))"
  by (simp add: initalizeInputsAndOutputs_def Let_def Multiple_concept_iff
      split: storage.splits)

lemma out_initalize_None:
  "None_concept (M b) \<Longrightarrow> out (initalizeInputsAndOutputs b) = out b"
  by (simp add: initalizeInputsAndOutputs_def Let_def One_concept_def None_concept_def
      Multiple_concept_def split: storage.splits)

lemma inp_initalize_One:
  "One_concept (N b) \<Longrightarrow> inp b = Single p \<Longrightarrow>
     inp (initalizeInputsAndOutputs b) = Single (setOwner (this b) p)"
  by (simp add: initalizeInputsAndOutputs_def Let_def split: storage.splits)

lemma inp_initalize_Multiple:
  "Multiple_concept (N b) \<Longrightarrow>
     inp (initalizeInputsAndOutputs b) = apply_each (setOwner (this b)) (inp b)"
  by (simp add: initalizeInputsAndOutputs_def Let_def Multiple_concept_iff
      split: storage.splits)

lemma inp_initalize_None:
  "None_concept (N b) \<Longrightarrow> inp (initalizeInputsAndOutputs b) = inp b"
  by (simp add: initalizeInputsAndOutputs_def Let_def One_concept_def None_concept_def
      Multiple_concept_def split: storage.splits)

lemma out_Blockio_ctor:
  "out (Blockio_ctor self nm n m Uin Uout f s_in s_out) =
     (if One_concept m then Single (clear_signal (setOwner self (new_Port (Uout ! 0) s_out)))
      else if None_concept m then Empty
      else apply_each clear_signal (apply_each (setOwner self)
             (createOutputs Uout m s_out (make_index_sequence (unat m)))))"
proof -
  consider "One_concept m" | "None_concept m" "\<not> One_concept m" | "Multiple_concept m"
    using Multiple_concept_iff [of m] by blast
  then show ?thesis
  proof cases
    case 1
    then show ?thesis
      by (simp add: Blockio_ctor_def out_initalize_One generateMOutputs_def)
  next
    case 2
    then show ?thesis
      by (simp add: Blockio_ctor_def out_initalize_None generateMOutputs_def)
  next
    case 3
    then show ?thesis
      by (simp add: Blockio_ctor_def out_initalize_Multiple generateMOutputs_def
          Multiple_concept_iff)
  qed
qed

lemma inp_Blockio_ctor:
  "inp (Blockio_ctor self nm n m Uin Uout f s_in s_out) =
     (if One_concept n then Single (setOwner self (new_Port (Uin ! 0) s_in))
      else if None_concept n then Empty
      else apply_each (setOwner self)
             (createInputs Uin n s_in (make_index_sequence (unat n))))"
proof -
  consider "One_concept n" | "None_concept n" "\<not> One_concept n" | "Multiple_concept n"
    using Multiple_concept_iff [of n] by blast
  then show ?thesis
  proof cases
    case 1
    then show ?thesis
      by (simp add: Blockio_ctor_def inp_initalize_One generateNInputs_def)
  next
    case 2
    then show ?thesis
      by (simp add: Blockio_ctor_def inp_initalize_None generateNInputs_def)
  next
    case 3
    then show ?thesis
      by (simp add: Blockio_ctor_def inp_initalize_Multiple generateNInputs_def
          Multiple_concept_iff)
  qed
qed

lemma fields_Blockio_ctor:
  "this (Blockio_ctor self nm n m Uin Uout f s_in s_out) = self"
  "name (Blockio_ctor self nm n m Uin Uout f s_in s_out) = nm"
  "N (Blockio_ctor self nm n m Uin Uout f s_in s_out) = n"
  "M (Blockio_ctor self nm n m Uin Uout f s_in s_out) = m"
  "func (Blockio_ctor self nm n m Uin Uout f s_in s_out) = f"
  by (simp_all add: Blockio_ctor_def initalize_fields)

lemma ports_of_apply_each: "ports_of (apply_each f st) = (case st of Single p \<Rightarrow> [p] | _ \<Rightarrow> map f (ports_of st))"
  by (cases st) simp_all

lemma length_ports_out_ctor:
  "length (ports_of (out (Blockio_ctor self nm n m Uin Uout f s_in s_out))) = unat m"
  by (simp add: out_Blockio_ctor createOutputs_def make_index_sequence_def Let_def
      One_concept_def None_concept_def)

lemma length_ports_inp_ctor:
  "length (ports_of (inp (Blockio_ctor self nm n m Uin Uout f s_in s_out))) = unat n"
  by (simp add: inp_Blockio_ctor createInputs_def make_index_sequence_def Let_def
      One_concept_def None_concept_def)

lemma clear_signal_simps:
  "signal (clear_signal p) = \<lparr>sig_value = 0, sig_timestamp = None\<rparr>"
  "owner (clear_signal p) = owner p"
  "owner_set_count (clear_signal p) = owner_set_count p"
  "port_unit (clear_signal p) = port_unit p"
  by (simp_all add: clear_signal_def clear_def getSignal_def)

lemma setOwner_simps:
  "owner (setOwner b p) = Some b"
  "owner_set_count (setOwner b p) = Suc (owner_set_count p)"
  "signal (setOwner b p) = signal p"
  "port_unit (setOwner b p) = port_unit p"
  by (simp_all add: setOwner_def)

lemma new_Port_simps:
  "owner (new_Port U s) = None"
  "owner_set_count (new_Port U s) = 0"
  "signal (new_Port U s) = s"
  "port_unit (new_Port U s) = U"
  by (simp_all add: new_Port_def)

lemma ports_out_ctor_cleared:
  assumes "p \<in> set (ports_of (out (Blockio_ctor self nm n m Uin Uout f s_in s_out)))"
  shows "signal p = \<lparr>sig_value = 0, sig_timestamp = None\<rparr>"
    and "owner p = Some self" and "owner_set_count p = 1"
  using assms
  by (auto simp add: out_Blockio_ctor createOutputs_def Let_def clear_signal_simps
      setOwner_simps new_Port_simps split: if_splits)

lemma ports_inp_ctor_owned:
  assumes "p \<in> set (ports_of (inp (Blockio_ctor self nm n m Uin Uout f s_in s_out)))"
  shows "owner p = Some self" and "owner_set_count p = 1" and "signal p = s_in"
  using assms
  by (auto simp add: inp_Blockio_ctor createInputs_def Let_def
      setOwner_simps new_Port_simps split: if_splits)

subsection \<open>The loop of the demultiplexer\<close>


lemma map_update_same: "f y = f (xs ! i) \<Longrightarrow> map f (xs[i := y]) = map f xs"
  by (induction xs arbitrary: i) (auto split: nat.splits)

lemma DeMux_body_owners:
  "map (\<lambda>q. (owner q, owner_set_count q)) (DeMux_body i p outs)
     = map (\<lambda>q. (owner q, owner_set_count q)) outs"
proof -
  let ?f = "\<lambda>q :: 'a Port. (owner q, owner_set_count q)"
  define outs1 where "outs1 = outs[unat i := (outs ! unat i)
      \<lparr>signal := setValue (getValue (getSignal p) ! unat i) (getSignal (outs ! unat i))\<rparr>]"
  have one: "map ?f outs1 = map ?f outs"
    unfolding outs1_def by (rule map_update_same) simp
  have two: "map ?f (outs1[unat i := (outs1 ! unat i)
      \<lparr>signal := setTimestamp (getTimestamp (getSignal p)) (getSignal (outs1 ! unat i))\<rparr>])
      = map ?f outs1"
    by (rule map_update_same) simp
  show ?thesis
    using one two by (simp add: DeMux_body_def Let_def outs1_def)
qed

lemma DeMux_loop_owners:
  "map (\<lambda>q. (owner q, owner_set_count q)) (DeMux_loop i n p outs)
     = map (\<lambda>q. (owner q, owner_set_count q)) outs"
proof (induction i n p outs rule: DeMux_loop.induct)
  case (1 i n p outs)
  show ?case
  proof (cases "i < n")
    case True
    then have "DeMux_loop i n p outs = DeMux_loop (i + 1) n p (DeMux_body i p outs)"
      by (subst DeMux_loop.simps) simp
    with 1 [OF True] show ?thesis
      by (simp add: DeMux_body_owners)
  next
    case False
    then show ?thesis
      by (subst DeMux_loop.simps) simp
  qed
qed

lemma Signal_update_both:
  "s\<lparr>sig_value := v, sig_timestamp := t\<rparr> = \<lparr>sig_value = v, sig_timestamp = t\<rparr>"
  for s :: "'a Signal"
  by (cases s) simp




subsection \<open>Construction: output signals and owners\<close>

lemma index_sequence_2: "[0..<2] = [0, 1]"
  by (simp add: upt_rec)

lemma index_sequence_3: "[0..<3] = [0, 1, 2]"
  by (simp add: upt_rec)

lemmas ctor_defs = Blockio_default_ctor_def Blockio_ctor_def initalizeInputsAndOutputs_def
  generateNInputs_def generateMOutputs_def createInputs_def createOutputs_def
  One_concept_def None_concept_def Multiple_concept_def make_index_sequence_def
  generateNSizeArray_def createArray_def new_Port_def new_Port_owned_def setOwner_def
  clear_signal_def clear_def getSignal_def Let_def index_sequence_2 index_sequence_3

lemmas signal_defs = getValue_def setValue_def getTimestamp_def setTimestamp_def

lemmas access_defs = getIn_def getIn_I_def getIn_index_def getOut_def getOut_I_def
  getOut_index_def

text \<open>
  Claim C5. Immediately after construction, before any cycle has run, a block has as many
  output ports as its output count \<open>M\<close> says, and the signal of every output port is the
  cleared one: the zero of the value type as its value and an empty timestamp, whatever a
  fresh port held. For \<open>M = 1\<close> this is the port that \<open>getOut()\<close> returns, for \<open>M > 1\<close>
  the port at every index.
\<close>

theorem outputs_cleared_after_construction:
  assumes "b = Blockio_ctor self nm n m Uin Uout f s_in s_out"
  shows "length (ports_of (out b)) = unat m
    \<and> (\<forall>p\<in>set (ports_of (out b)). getSignal p = clear s_out
          \<and> getSignal p = \<lparr>sig_value = 0, sig_timestamp = None\<rparr>)
    \<and> (One_concept m \<longrightarrow>
         (\<exists>p. getOut b = Inr p \<and> getSignal p = \<lparr>sig_value = 0, sig_timestamp = None\<rparr>))
    \<and> (Multiple_concept m \<longrightarrow>
         (\<forall>i<unat m. \<exists>p. getOut_I b i = Inr p
            \<and> getSignal p = \<lparr>sig_value = 0, sig_timestamp = None\<rparr>))"
proof -
  have len: "length (ports_of (out b)) = unat m"
    by (simp add: assms length_ports_out_ctor)
  have all: "\<forall>p\<in>set (ports_of (out b)). getSignal p = \<lparr>sig_value = 0, sig_timestamp = None\<rparr>"
    using ports_out_ctor_cleared(1) [of _ self nm n m Uin Uout f s_in s_out]
    by (simp add: assms getSignal_def)
  have single: "\<exists>p. getOut b = Inr p \<and> getSignal p = \<lparr>sig_value = 0, sig_timestamp = None\<rparr>"
    if "One_concept m"
    using that
    by (simp add: assms getOut_def fields_Blockio_ctor out_Blockio_ctor getSignal_def
        clear_signal_simps)
  have many: "\<exists>p. getOut_I b i = Inr p
      \<and> getSignal p = \<lparr>sig_value = 0, sig_timestamp = None\<rparr>"
    if "Multiple_concept m" and "i < unat m" for i
  proof -
    from that(1) have shape: "(\<exists>ps. out b = Array ps) \<or> (\<exists>ps. out b = Tuple ps)"
      by (simp add: assms out_Blockio_ctor Multiple_concept_iff createOutputs_def Let_def)
    from that(2) len have "i < length (ports_of (out b))"
      by simp
    moreover from this have "ports_of (out b) ! i \<in> set (ports_of (out b))"
      by (rule nth_mem)
    with all have "getSignal (ports_of (out b) ! i) = \<lparr>sig_value = 0, sig_timestamp = None\<rparr>"
      by blast
    moreover have "M b = m"
      by (simp add: assms fields_Blockio_ctor)
    ultimately show ?thesis
      using shape that(1) by (auto simp add: getOut_I_def)
  qed
  have cl: "clear s_out = \<lparr>sig_value = 0, sig_timestamp = None\<rparr>"
    by (simp add: clear_def Signal_update_both)
  show ?thesis
    using len all single many unfolding cl by blast
qed

theorem outputs_cleared_after_construction_witness:
  "getOut (Blockio_ctor 1 ''gain'' 1 1 [Volt] [Watt] (\<lambda>st. st)
       \<lparr>sig_value = 5, sig_timestamp = Some 9\<rparr> \<lparr>sig_value = 7 :: int, sig_timestamp = Some 3\<rparr>
       :: (int, int) Blockio)
     = Inr \<lparr>port_unit = Watt, signal = \<lparr>sig_value = 0, sig_timestamp = None\<rparr>,
            owner = Some 1, owner_set_count = 1\<rparr>
   \<and> map getSignal (ports_of (out (Blockio_ctor 1 ''split'' 1 2 [Volt] [Watt, Joule] (\<lambda>st. st)
       \<lparr>sig_value = 5, sig_timestamp = Some 9\<rparr> \<lparr>sig_value = 7 :: int, sig_timestamp = Some 3\<rparr>
       :: (int, int) Blockio)))
     = [\<lparr>sig_value = 0, sig_timestamp = None\<rparr>, \<lparr>sig_value = 0, sig_timestamp = None\<rparr>]"
  using outputs_cleared_after_construction [of
      "Blockio_ctor 1 ''gain'' 1 1 [Volt] [Watt] (\<lambda>st. st)
       \<lparr>sig_value = 5, sig_timestamp = Some 9\<rparr> \<lparr>sig_value = 7 :: int, sig_timestamp = Some 3\<rparr>
       :: (int, int) Blockio"
      1 "''gain''" 1 1 "[Volt]" "[Watt]" "\<lambda>st. st"
      "\<lparr>sig_value = 5, sig_timestamp = Some 9\<rparr>" "\<lparr>sig_value = 7, sig_timestamp = Some 3\<rparr>"]
    outputs_cleared_after_construction [of
      "Blockio_ctor 1 ''split'' 1 2 [Volt] [Watt, Joule] (\<lambda>st. st)
       \<lparr>sig_value = 5, sig_timestamp = Some 9\<rparr> \<lparr>sig_value = 7 :: int, sig_timestamp = Some 3\<rparr>
       :: (int, int) Blockio"
      1 "''split''" 1 2 "[Volt]" "[Watt, Joule]" "\<lambda>st. st"
      "\<lparr>sig_value = 5, sig_timestamp = Some 9\<rparr>" "\<lparr>sig_value = 7, sig_timestamp = Some 3\<rparr>"]
  by (simp add: ctor_defs access_defs unit_defs operator_eq_def)

text \<open>
  Claim C6. After construction, a block has as many input and output ports as its counts
  \<open>N\<close> and \<open>M\<close> say, and every one of them has the constructing block as its owner, set by
  exactly one call of \<open>setOwner\<close>. The operations of the blocks leave the owners and the
  number of \<open>setOwner\<close> calls of all ports as they are: \<open>run\<close> of a block constructed
  without an algorithm, \<open>DeMux::run\<close> and \<open>Mul::run\<close>.
\<close>

theorem owner_set_once_at_construction:
  assumes "b = Blockio_ctor self nm n m Uin Uout f s_in s_out"
  shows "length (ports_of (inp b)) = unat n \<and> length (ports_of (out b)) = unat m
    \<and> (\<forall>p\<in>set (ports_of (inp b)). owner p = Some self \<and> owner_set_count p = 1)
    \<and> (\<forall>p\<in>set (ports_of (out b)). owner p = Some self \<and> owner_set_count p = 1)
    \<and> this b = self
    \<and> (f = (\<lambda>st. st) \<longrightarrow> run b = b)
    \<and> (\<forall>d'. DeMux_run k d = Inr d' \<longrightarrow> owners d' = owners d)
    \<and> (\<forall>mu'. Mul_run times_op to_OutT mu = Inr mu' \<longrightarrow>
          owners mu' = owners mu \<and> in1 mu' = in1 mu \<and> in2 mu' = in2 mu)"
proof -
  have len: "length (ports_of (inp b)) = unat n \<and> length (ports_of (out b)) = unat m"
    by (simp add: assms length_ports_inp_ctor length_ports_out_ctor)
  have ins: "\<forall>p\<in>set (ports_of (inp b)). owner p = Some self \<and> owner_set_count p = 1"
    using ports_inp_ctor_owned(1,2) [of _ self nm n m Uin Uout f s_in s_out]
    by (simp add: assms)
  have outs: "\<forall>p\<in>set (ports_of (out b)). owner p = Some self \<and> owner_set_count p = 1"
    using ports_out_ctor_cleared(2,3) [of _ self nm n m Uin Uout f s_in s_out]
    by (simp add: assms)
  have self: "this b = self"
    by (simp add: assms fields_Blockio_ctor)
  have cycle: "f = (\<lambda>st. st) \<longrightarrow> run b = b"
    by (simp add: run_def assms fields_Blockio_ctor)
  have demux: "\<forall>d'. DeMux_run k d = Inr d' \<longrightarrow> owners d' = owners d"
    by (auto simp add: DeMux_run_def owners_def DeMux_loop_owners split: storage.splits)
  have mul: "\<forall>mu'. Mul_run times_op to_OutT mu = Inr mu' \<longrightarrow>
          owners mu' = owners mu \<and> in1 mu' = in1 mu \<and> in2 mu' = in2 mu"
    by (auto simp add: Mul_run_def owners_def Let_def split: storage.splits)
  show ?thesis
    using len ins outs self cycle demux mul by blast
qed

lemma replicate_2: "replicate 2 x = [x, x]"
  by (simp add: numeral_2_eq_2)

lemma replicate_3: "replicate 3 x = [x, x, x]"
  by (simp add: numeral_3_eq_3)

lemmas scenario_defs = scenario_Mul_def scenario_Mul_uint8_def scenario_DeMux_def
  scenario_two_inputs_def scenario_two_inputs_later_def port_with_def
  scenario_watt_inputs_def Mul_ctor_def DeMux_ctor_def Mul.defs Blockio.defs
  replicate_2 replicate_3 unit_defs operator_eq_def


theorem owner_set_once_at_construction_witness:
  "owners scenario_watt_inputs = [(Some 4, 1), (Some 4, 1), (Some 4, 1), (Some 4, 1)]
   \<and> run scenario_watt_inputs = scenario_watt_inputs
   \<and> DeMux_run 3 scenario_DeMux
       = Inr (scenario_DeMux\<lparr>out := Array (DeMux_loop 0 3
            \<lparr>port_unit = create_default,
             signal = \<lparr>sig_value = [1, 2, 3], sig_timestamp = Some 5\<rparr>,
             owner = Some 2, owner_set_count = 1\<rparr>
            (replicate 3 \<lparr>port_unit = create_default,
               signal = \<lparr>sig_value = 0, sig_timestamp = None\<rparr>,
               owner = Some 2, owner_set_count = 1\<rparr>))\<rparr>)
   \<and> owners (scenario_DeMux\<lparr>out := Array (DeMux_loop 0 3
            \<lparr>port_unit = create_default,
             signal = \<lparr>sig_value = [1, 2, 3], sig_timestamp = Some 5\<rparr>,
             owner = Some 2, owner_set_count = 1\<rparr>
            (replicate 3 \<lparr>port_unit = create_default,
               signal = \<lparr>sig_value = 0, sig_timestamp = None\<rparr>,
               owner = Some 2, owner_set_count = 1\<rparr>))\<rparr>)
       = [(Some 2, 1), (Some 2, 1), (Some 2, 1), (Some 2, 1)]
   \<and> Mul_run (*) (\<lambda>x. x) scenario_Mul
       = Inr (scenario_Mul\<lparr>out := Single \<lparr>port_unit = create_default,
            signal = \<lparr>sig_value = 12, sig_timestamp = Some 10\<rparr>,
            owner = Some 1, owner_set_count = 1\<rparr>\<rparr>)
   \<and> owners (scenario_Mul\<lparr>out := Single \<lparr>port_unit = create_default,
            signal = \<lparr>sig_value = 12, sig_timestamp = Some 10\<rparr>,
            owner = Some 1, owner_set_count = 1\<rparr>\<rparr>) = [(Some 1, 1)]"
proof -
  have d: "DeMux_run 3 scenario_DeMux
       = Inr (scenario_DeMux\<lparr>out := Array (DeMux_loop 0 3
            \<lparr>port_unit = create_default,
             signal = \<lparr>sig_value = [1, 2, 3], sig_timestamp = Some 5\<rparr>,
             owner = Some 2, owner_set_count = 1\<rparr>
            (replicate 3 \<lparr>port_unit = create_default,
               signal = \<lparr>sig_value = 0, sig_timestamp = None\<rparr>,
               owner = Some 2, owner_set_count = 1\<rparr>))\<rparr>)"
    by (simp add: scenario_defs ctor_defs DeMux_run_def)
  have m: "Mul_run (*) (\<lambda>x. x) scenario_Mul
       = Inr (scenario_Mul\<lparr>out := Single \<lparr>port_unit = create_default,
            signal = \<lparr>sig_value = 12, sig_timestamp = Some 10\<rparr>,
            owner = Some 1, owner_set_count = 1\<rparr>\<rparr>)"
    by (simp add: scenario_defs ctor_defs Mul_run_def signal_defs)
  have c: "scenario_watt_inputs = Blockio_ctor 4 ''sum'' 2 2 [Watt, Watt] [Watt, Watt]
     (\<lambda>st. st) \<lparr>sig_value = 5, sig_timestamp = Some 9\<rparr> \<lparr>sig_value = 7, sig_timestamp = Some 3\<rparr>"
    by (simp add: scenario_watt_inputs_def Blockio_default_ctor_def)
  have o: "owners scenario_watt_inputs = [(Some 4, 1), (Some 4, 1), (Some 4, 1), (Some 4, 1)]"
    by (simp add: scenario_defs ctor_defs owners_def)
  have od: "owners scenario_DeMux = [(Some 2, 1), (Some 2, 1), (Some 2, 1), (Some 2, 1)]"
    by (simp add: scenario_defs ctor_defs owners_def)
  have om: "owners scenario_Mul = [(Some 1, 1)]"
    by (simp add: scenario_defs ctor_defs owners_def)
  show ?thesis
    using owner_set_once_at_construction [OF c, of 3 scenario_DeMux "(*)" "\<lambda>x. x"
        scenario_Mul] d m o od om
    by simp
qed

subsection \<open>The choice of the storage\<close>

lemma all_equal_replicate: "\<forall>u\<in>set U. u = c \<Longrightarrow> replicate (length U) c = U"
  by (induction U) simp_all

lemma inp_ctor_Multiple:
  assumes "Multiple_concept n"
  shows "inp (Blockio_ctor self nm n m Uin Uout f s_in s_out) =
     (if \<forall>u\<in>set Uin. u = create_default
      then Array (replicate (unat n) (setOwner self (new_Port create_default s_in)))
      else Tuple (map (\<lambda>i. setOwner self (new_Port (Uin ! i) s_in)) [0..<unat n]))"
  using assms
  by (simp add: inp_Blockio_ctor Multiple_concept_iff createInputs_def
      list_all_dimensionless make_index_sequence_def comp_def)

lemma out_ctor_Multiple:
  assumes "Multiple_concept m"
  shows "out (Blockio_ctor self nm n m Uin Uout f s_in s_out) =
     (if \<forall>u\<in>set Uout. u = create_default
      then Array (replicate (unat m) (clear_signal (setOwner self (new_Port create_default s_out))))
      else Tuple (map (\<lambda>i. clear_signal (setOwner self (new_Port (Uout ! i) s_out)))
             [0..<unat m]))"
  using assms
  by (simp add: out_Blockio_ctor Multiple_concept_iff createOutputs_def
      list_all_dimensionless make_index_sequence_def comp_def)

lemma map_nth_units: "length U = k \<Longrightarrow> map (\<lambda>i. U ! i) [0..<k] = U"
  by (auto simp add: map_nth)

text \<open>
  Claim C2, as the code has it. For every block with a "many" side (\<open>N > 1\<close> inputs,
  \<open>M > 1\<close> outputs), the storage of that side is the array, indexable at run time, exactly
  when every declared unit of the side equals the default (dimensionless) unit
  \<open>SIUnit::create()\<close>, and the tuple, indexed at compile time, otherwise. In both cases
  the ports carry the declared units in order; and when the array is chosen, every
  declared unit equals the first one.
\<close>

theorem storage_array_iff_all_dimensionless:
  assumes "b = Blockio_ctor self nm n m Uin Uout f s_in s_out"
    and "length Uin = unat n" and "length Uout = unat m"
  shows "(Multiple_concept n \<longrightarrow>
            (is_Array (inp b) \<longleftrightarrow> (\<forall>u\<in>set Uin. operator_eq u create_default))
          \<and> (is_Tuple (inp b) \<longleftrightarrow> \<not> (\<forall>u\<in>set Uin. operator_eq u create_default))
          \<and> map port_unit (ports_of (inp b)) = Uin
          \<and> (is_Array (inp b) \<longrightarrow> (\<forall>u\<in>set Uin. operator_eq u (Uin ! 0))))
       \<and> (Multiple_concept m \<longrightarrow>
            (is_Array (out b) \<longleftrightarrow> (\<forall>u\<in>set Uout. operator_eq u create_default))
          \<and> (is_Tuple (out b) \<longleftrightarrow> \<not> (\<forall>u\<in>set Uout. operator_eq u create_default))
          \<and> map port_unit (ports_of (out b)) = Uout
          \<and> (is_Array (out b) \<longrightarrow> (\<forall>u\<in>set Uout. operator_eq u (Uout ! 0))))"
proof (intro conjI impI)
  assume many: "Multiple_concept n"
  note shape = inp_ctor_Multiple [OF many, of self nm m Uin Uout f s_in s_out]
  show a: "is_Array (inp b) \<longleftrightarrow> (\<forall>u\<in>set Uin. operator_eq u create_default)"
    by (simp add: assms(1) shape operator_eq_iff)
  show "is_Tuple (inp b) \<longleftrightarrow> \<not> (\<forall>u\<in>set Uin. operator_eq u create_default)"
    by (simp add: assms(1) shape operator_eq_iff)
  show "map port_unit (ports_of (inp b)) = Uin"
  proof (cases "\<forall>u\<in>set Uin. u = create_default")
    case True
    then show ?thesis
      using all_equal_replicate [of Uin create_default] assms(2)
      by (simp add: assms(1) shape setOwner_simps new_Port_simps)
  next
    case False
    have "inp b = Tuple (map (\<lambda>i. setOwner self (new_Port (Uin ! i) s_in)) [0..<unat n])"
      unfolding assms(1) shape by (rule if_not_P) (rule False)
    then show ?thesis
      using map_nth_units [OF assms(2)]
      by (simp add: setOwner_simps new_Port_simps comp_def)
  qed
  show "\<forall>u\<in>set Uin. operator_eq u (Uin ! 0)" if "is_Array (inp b)"
  proof -
    from that a have all: "\<forall>u\<in>set Uin. u = create_default"
      by (simp add: operator_eq_iff)
    from many assms(2) have "0 < length Uin"
      by (simp add: Multiple_concept_def word_less_nat_alt)
    then have "Uin ! 0 \<in> set Uin"
      by (rule nth_mem)
    with all show ?thesis
      unfolding operator_eq_iff by metis
  qed
next
  assume many: "Multiple_concept m"
  note shape = out_ctor_Multiple [OF many, of self nm n Uin Uout f s_in s_out]
  show a: "is_Array (out b) \<longleftrightarrow> (\<forall>u\<in>set Uout. operator_eq u create_default)"
    by (simp add: assms(1) shape operator_eq_iff)
  show "is_Tuple (out b) \<longleftrightarrow> \<not> (\<forall>u\<in>set Uout. operator_eq u create_default)"
    by (simp add: assms(1) shape operator_eq_iff)
  show "map port_unit (ports_of (out b)) = Uout"
  proof (cases "\<forall>u\<in>set Uout. u = create_default")
    case True
    then show ?thesis
      using all_equal_replicate [of Uout create_default] assms(3)
      by (simp add: assms(1) shape setOwner_simps new_Port_simps clear_signal_simps)
  next
    case False
    have "out b = Tuple (map (\<lambda>i. clear_signal (setOwner self (new_Port (Uout ! i) s_out)))
        [0..<unat m])"
      unfolding assms(1) shape by (rule if_not_P) (rule False)
    then show ?thesis
      using map_nth_units [OF assms(3)]
      by (simp add: setOwner_simps new_Port_simps clear_signal_simps comp_def)
  qed
  show "\<forall>u\<in>set Uout. operator_eq u (Uout ! 0)" if "is_Array (out b)"
  proof -
    from that a have all: "\<forall>u\<in>set Uout. u = create_default"
      by (simp add: operator_eq_iff)
    from many assms(3) have "0 < length Uout"
      by (simp add: Multiple_concept_def word_less_nat_alt)
    then have "Uout ! 0 \<in> set Uout"
      by (rule nth_mem)
    with all show ?thesis
      unfolding operator_eq_iff by metis
  qed
qed

theorem storage_array_iff_all_dimensionless_witness:
  "Multiple_concept 2
   \<and> is_Array (inp scenario_two_inputs) \<and> is_Array (out scenario_two_inputs)
   \<and> map port_unit (ports_of (inp scenario_two_inputs)) = [create_default, create_default]
   \<and> is_Tuple (inp scenario_watt_inputs) \<and> is_Tuple (out scenario_watt_inputs)
   \<and> map port_unit (ports_of (inp scenario_watt_inputs)) = [Watt, Watt]
   \<and> \<not> operator_eq Watt create_default"
proof -
  have c1: "scenario_two_inputs = Blockio_ctor 3 ''blk'' 2 2
     [create_default, create_default] [create_default, create_default] (\<lambda>st. st)
     \<lparr>sig_value = 5, sig_timestamp = Some 9\<rparr> \<lparr>sig_value = 7, sig_timestamp = Some 3\<rparr>"
    by (simp add: scenario_two_inputs_def Blockio_default_ctor_def generateNSizeArray_def
        createArray_def make_index_sequence_def index_sequence_2)
  have c2: "scenario_watt_inputs = Blockio_ctor 4 ''sum'' 2 2 [Watt, Watt] [Watt, Watt]
     (\<lambda>st. st) \<lparr>sig_value = 5, sig_timestamp = Some 9\<rparr> \<lparr>sig_value = 7, sig_timestamp = Some 3\<rparr>"
    by (simp add: scenario_watt_inputs_def Blockio_default_ctor_def)
  have l: "length [create_default, create_default] = unat (2 :: 8 word)"
    "length [Watt, Watt] = unat (2 :: 8 word)"
    by simp_all
  have m: "Multiple_concept 2"
    by (simp add: Multiple_concept_def)
  have w: "\<not> operator_eq Watt create_default"
    by (simp add: unit_defs operator_eq_def)
  show ?thesis
    using storage_array_iff_all_dimensionless [OF c1 l(1) l(1)]
      storage_array_iff_all_dimensionless [OF c2 l(2) l(2)] m w
    by (simp add: operator_eq_iff)
qed

text \<open>
  The claim as the specification states it fails on two inputs that are both declared in
  watt: every declared unit equals the first one, and the storage is the tuple, not the
  array.
\<close>

theorem storage_all_equal_first_counterexample:
  "Multiple_concept (N scenario_watt_inputs)
   \<and> operator_eq ([Watt, Watt] ! 0) ([Watt, Watt] ! 0)
   \<and> operator_eq ([Watt, Watt] ! 1) ([Watt, Watt] ! 0)
   \<and> \<not> is_Array (inp scenario_watt_inputs)
   \<and> is_Tuple (inp scenario_watt_inputs)
   \<and> map port_unit (ports_of (inp scenario_watt_inputs)) = [Watt, Watt]"
  by (simp add: scenario_defs ctor_defs)

subsection \<open>Access by a run-time index\<close>

lemma inp_ctor_Array:
  assumes "Multiple_concept n" and "\<forall>u\<in>set Uin. operator_eq u create_default"
  shows "inp (Blockio_ctor self nm n m Uin Uout f s_in s_out)
     = Array (replicate (unat n) (setOwner self (new_Port create_default s_in)))"
  using assms(2) by (simp add: inp_ctor_Multiple [OF assms(1)] operator_eq_iff)

lemma out_ctor_Array:
  assumes "Multiple_concept m" and "\<forall>u\<in>set Uout. operator_eq u create_default"
  shows "out (Blockio_ctor self nm n m Uin Uout f s_in s_out)
     = Array (replicate (unat m) (clear_signal (setOwner self (new_Port create_default s_out))))"
  using assms(2) by (simp add: out_ctor_Multiple [OF assms(1)] operator_eq_iff)

lemma sublist_quoted: "sublist nm (pre @ [q] @ nm @ [q])"
  unfolding sublist_def by (rule exI [of _ "pre @ [q]"], rule exI [of _ "[q]"]) simp

lemma word8_not_le: "\<not> n \<le> i \<longleftrightarrow> i < n" for i n :: "8 word"
  by (simp add: not_le)

lemma getIn_index_Array:
  assumes "Multiple_concept (N b)" and "inp b = Array ps"
  shows "getIn_index b k =
     (if k \<ge> N b then Inl (IndexOutOfBoundsFault
         (''Trying to get inexistent element of input vector in block '' @ [CHR 0x27]
            @ name b @ [CHR 0x27]))
      else Inr (ps ! unat k))"
  using assms by (simp add: getIn_index_def del: append.simps)

lemma getOut_index_Array:
  assumes "Multiple_concept (M b)" and "out b = Array qs"
  shows "getOut_index b k =
     (if k \<ge> M b then Inl (IndexOutOfBoundsFault
         (''Trying to get inexistent element of output vector in block '' @ [CHR 0x27]
            @ name b @ [CHR 0x27]))
      else Inr (qs ! unat k))"
  using assms by (simp add: getOut_index_def del: append.simps)

lemma scenario_two_inputs_ctor:
  "scenario_two_inputs = Blockio_ctor 3 ''blk'' 2 2
     [create_default, create_default] [create_default, create_default] (\<lambda>st. st)
     \<lparr>sig_value = 5, sig_timestamp = Some 9\<rparr> \<lparr>sig_value = 7, sig_timestamp = Some 3\<rparr>"
  by (simp add: scenario_two_inputs_def Blockio_default_ctor_def generateNSizeArray_def
      createArray_def make_index_sequence_def index_sequence_2)

lemma scenario_two_inputs_later_fields:
  "N scenario_two_inputs_later = 2" "M scenario_two_inputs_later = 2"
  "name scenario_two_inputs_later = ''blk''"
  "inp scenario_two_inputs_later = Array [port_with 10 1, port_with 20 2]"
  "out scenario_two_inputs_later = Array [port_with 30 3, port_with 40 4]"
  by (simp_all add: scenario_two_inputs_later_def scenario_two_inputs_ctor fields_Blockio_ctor)

text \<open>
  Claim C3, as the code has it. For every block with \<open>N > 1\<close> inputs stored in the array
  (which is the storage exactly when every declared unit is the default unit), in any
  state of its ports, and every run-time index \<open>i\<close>, \<open>getIn(i)\<close> raises
  \<open>IndexOutOfBoundsFault\<close> exactly when \<open>i >= N\<close>, and returns the port at position \<open>i\<close>
  of the array otherwise. The fault carries one message, which contains the name of the
  block between quotes; the message is the same for every offending index, so the index
  is not part of the fault. The same holds for \<open>getOut(i)\<close> and \<open>M\<close>. A block constructed
  with \<open>N > 1\<close> (\<open>M > 1\<close>) default units has such an array of \<open>N\<close> (\<open>M\<close>) ports.
\<close>

theorem runtime_index_fault:
  "(Multiple_concept (N b) \<and> inp b = Array ps \<and> length ps = unat (N b) \<longrightarrow>
       ((\<exists>msg. getIn_index b i = Inl (IndexOutOfBoundsFault msg)) \<longleftrightarrow> i \<ge> N b)
     \<and> (i \<ge> N b \<longrightarrow> getIn_index b i = Inl (IndexOutOfBoundsFault
           (''Trying to get inexistent element of input vector in block '' @ [CHR 0x27]
             @ name b @ [CHR 0x27])))
     \<and> sublist (name b) (''Trying to get inexistent element of input vector in block ''
           @ [CHR 0x27] @ name b @ [CHR 0x27])
     \<and> (i \<ge> N b \<and> j \<ge> N b \<longrightarrow> getIn_index b i = getIn_index b j)
     \<and> (i < N b \<longrightarrow> unat i < length ps \<and> getIn_index b i = Inr (ps ! unat i)))
   \<and> (Multiple_concept (M b) \<and> out b = Array qs \<and> length qs = unat (M b) \<longrightarrow>
       ((\<exists>msg. getOut_index b i = Inl (IndexOutOfBoundsFault msg)) \<longleftrightarrow> i \<ge> M b)
     \<and> (i \<ge> M b \<longrightarrow> getOut_index b i = Inl (IndexOutOfBoundsFault
           (''Trying to get inexistent element of output vector in block '' @ [CHR 0x27]
             @ name b @ [CHR 0x27])))
     \<and> sublist (name b) (''Trying to get inexistent element of output vector in block ''
           @ [CHR 0x27] @ name b @ [CHR 0x27])
     \<and> (i \<ge> M b \<and> j \<ge> M b \<longrightarrow> getOut_index b i = getOut_index b j)
     \<and> (i < M b \<longrightarrow> unat i < length qs \<and> getOut_index b i = Inr (qs ! unat i)))
   \<and> (Multiple_concept n \<and> (\<forall>u\<in>set Uin. operator_eq u create_default) \<longrightarrow>
       N (Blockio_ctor self nm n m Uin Uout f s_in s_out) = n
     \<and> name (Blockio_ctor self nm n m Uin Uout f s_in s_out) = nm
     \<and> inp (Blockio_ctor self nm n m Uin Uout f s_in s_out)
         = Array (replicate (unat n) (setOwner self (new_Port create_default s_in))))
   \<and> (Multiple_concept m \<and> (\<forall>u\<in>set Uout. operator_eq u create_default) \<longrightarrow>
       M (Blockio_ctor self nm n m Uin Uout f s_in s_out) = m
     \<and> name (Blockio_ctor self nm n m Uin Uout f s_in s_out) = nm
     \<and> out (Blockio_ctor self nm n m Uin Uout f s_in s_out)
         = Array (replicate (unat m)
             (clear_signal (setOwner self (new_Port create_default s_out)))))"
proof (intro conjI impI; (elim conjE)?)
  assume many: "Multiple_concept (N b)" and arr: "inp b = Array ps"
    and len: "length ps = unat (N b)"
  note get = getIn_index_Array [OF many arr]
  show "(\<exists>msg. getIn_index b i = Inl (IndexOutOfBoundsFault msg)) \<longleftrightarrow> i \<ge> N b"
    by (simp add: get del: append.simps)
  show "getIn_index b i = Inl (IndexOutOfBoundsFault
        (''Trying to get inexistent element of input vector in block '' @ [CHR 0x27]
          @ name b @ [CHR 0x27]))" if "i \<ge> N b"
    using that by (simp add: get del: append.simps)
  show "sublist (name b) (''Trying to get inexistent element of input vector in block ''
        @ [CHR 0x27] @ name b @ [CHR 0x27])"
    by (rule sublist_quoted)
  show "getIn_index b i = getIn_index b j" if "i \<ge> N b" and "j \<ge> N b"
    using that by (simp add: get del: append.simps)
  show "unat i < length ps" if "i < N b"
    using that len by (simp add: word_less_nat_alt)
  show "getIn_index b i = Inr (ps ! unat i)" if "i < N b"
    using that by (simp add: get word8_not_le del: append.simps)
next
  assume many: "Multiple_concept (M b)" and arr: "out b = Array qs"
    and len: "length qs = unat (M b)"
  note get = getOut_index_Array [OF many arr]
  show "(\<exists>msg. getOut_index b i = Inl (IndexOutOfBoundsFault msg)) \<longleftrightarrow> i \<ge> M b"
    by (simp add: get del: append.simps)
  show "getOut_index b i = Inl (IndexOutOfBoundsFault
        (''Trying to get inexistent element of output vector in block '' @ [CHR 0x27]
          @ name b @ [CHR 0x27]))" if "i \<ge> M b"
    using that by (simp add: get del: append.simps)
  show "sublist (name b) (''Trying to get inexistent element of output vector in block ''
        @ [CHR 0x27] @ name b @ [CHR 0x27])"
    by (rule sublist_quoted)
  show "getOut_index b i = getOut_index b j" if "i \<ge> M b" and "j \<ge> M b"
    using that by (simp add: get del: append.simps)
  show "unat i < length qs" if "i < M b"
    using that len by (simp add: word_less_nat_alt)
  show "getOut_index b i = Inr (qs ! unat i)" if "i < M b"
    using that by (simp add: get word8_not_le del: append.simps)
next
  assume "Multiple_concept n" and "\<forall>u\<in>set Uin. operator_eq u create_default"
  then show "inp (Blockio_ctor self nm n m Uin Uout f s_in s_out)
         = Array (replicate (unat n) (setOwner self (new_Port create_default s_in)))"
    by (rule inp_ctor_Array)
next
  assume "Multiple_concept m" and "\<forall>u\<in>set Uout. operator_eq u create_default"
  then show "out (Blockio_ctor self nm n m Uin Uout f s_in s_out)
         = Array (replicate (unat m)
             (clear_signal (setOwner self (new_Port create_default s_out))))"
    by (rule out_ctor_Array)
qed (simp_all add: fields_Blockio_ctor)

theorem runtime_index_fault_witness:
  "Multiple_concept (N scenario_two_inputs_later)
   \<and> inp scenario_two_inputs_later = Array [port_with 10 1, port_with 20 2]
   \<and> out scenario_two_inputs_later = Array [port_with 30 3, port_with 40 4]
   \<and> getIn_index scenario_two_inputs_later 0 = Inr (port_with 10 1)
   \<and> getIn_index scenario_two_inputs_later 1 = Inr (port_with 20 2)
   \<and> getIn_index scenario_two_inputs_later 2 = Inl (IndexOutOfBoundsFault
        (''Trying to get inexistent element of input vector in block '' @ [CHR 0x27]
          @ ''blk'' @ [CHR 0x27]))
   \<and> getOut_index scenario_two_inputs_later 0 = Inr (port_with 30 3)
   \<and> getOut_index scenario_two_inputs_later 1 = Inr (port_with 40 4)
   \<and> getOut_index scenario_two_inputs_later 2 = Inl (IndexOutOfBoundsFault
        (''Trying to get inexistent element of output vector in block '' @ [CHR 0x27]
          @ ''blk'' @ [CHR 0x27]))
   \<and> port_with 10 1 \<noteq> port_with 20 2
   \<and> inp scenario_two_inputs = Array (replicate (unat (2 :: 8 word))
        (setOwner 3 (new_Port create_default \<lparr>sig_value = 5, sig_timestamp = Some 9\<rparr>)))"
proof -
  have m: "Multiple_concept 2"
    by (simp add: Multiple_concept_def)
  have u: "\<forall>u\<in>set [create_default, create_default]. operator_eq u create_default"
    by (simp add: operator_eq_def)
  have d: "port_with 10 1 \<noteq> port_with 20 2"
    by (simp add: port_with_def)
  note f = scenario_two_inputs_later_fields
  show ?thesis
    using runtime_index_fault [of scenario_two_inputs_later "[port_with 10 1, port_with 20 2]"
        0 2 "[port_with 30 3, port_with 40 4]" 2 "[create_default, create_default]" 3 "''blk''"
        2 "[create_default, create_default]" "\<lambda>st. st"
        "\<lparr>sig_value = 5 :: int, sig_timestamp = Some 9\<rparr>"
        "\<lparr>sig_value = 7 :: int, sig_timestamp = Some 3\<rparr>"]
      runtime_index_fault [of scenario_two_inputs_later "[port_with 10 1, port_with 20 2]"
        1 2 "[port_with 30 3, port_with 40 4]" 2 "[create_default, create_default]" 3 "''blk''"
        2 "[create_default, create_default]" "\<lambda>st. st"
        "\<lparr>sig_value = 5 :: int, sig_timestamp = Some 9\<rparr>"
        "\<lparr>sig_value = 7 :: int, sig_timestamp = Some 3\<rparr>"]
      runtime_index_fault [of scenario_two_inputs_later "[port_with 10 1, port_with 20 2]"
        2 2 "[port_with 30 3, port_with 40 4]" 2 "[create_default, create_default]" 3 "''blk''"
        2 "[create_default, create_default]" "\<lambda>st. st"
        "\<lparr>sig_value = 5 :: int, sig_timestamp = Some 9\<rparr>"
        "\<lparr>sig_value = 7 :: int, sig_timestamp = Some 3\<rparr>"]
      m u d
    by (simp add: f scenario_two_inputs_ctor del: append.simps)
qed

text \<open>
  The claim as the specification states it fails on the block of two inputs: the indices
  2 and 3 raise the same fault, whose message names the block and has no place for the
  index.
\<close>

theorem fault_carries_index_counterexample:
  "getIn_index scenario_two_inputs 2 = Inl (IndexOutOfBoundsFault
       (''Trying to get inexistent element of input vector in block '' @ [CHR 0x27]
          @ ''blk'' @ [CHR 0x27]))
   \<and> getIn_index scenario_two_inputs 3 = getIn_index scenario_two_inputs 2
   \<and> (2 :: 8 word) \<noteq> 3
   \<and> \<not> sublist ''2'' (''Trying to get inexistent element of input vector in block ''
       @ [CHR 0x27] @ ''blk'' @ [CHR 0x27])"
  by (simp add: scenario_defs ctor_defs access_defs sublist_Cons_right prefix_Cons)

text \<open>
  Claim C4, as the code has it. For every block with \<open>N = k > 1\<close> inputs stored in the
  array (which is the storage exactly when the declared units all equal the default,
  dimensionless unit), in any state of its ports, and every index \<open>i\<close> with
  \<open>0 <= i < k\<close>, the run-time access \<open>getIn(i)\<close> returns the port that the compile-time
  access \<open>getIn<i>()\<close> returns, and that is the port at position \<open>i\<close> of the array; the
  same holds for the outputs. A block constructed with \<open>N > 1\<close> (\<open>M > 1\<close>) default units
  has such an array of \<open>N\<close> (\<open>M\<close>) ports.
\<close>

theorem runtime_access_same_port:
  "(Multiple_concept (N b) \<and> inp b = Array ps \<and> length ps = unat (N b) \<and> i < N b \<longrightarrow>
       getIn_index b i = getIn_I b (unat i)
     \<and> getIn_I b (unat i) = Inr (ps ! unat i)
     \<and> unat i < length ps)
   \<and> (Multiple_concept (M b) \<and> out b = Array qs \<and> length qs = unat (M b) \<and> i < M b \<longrightarrow>
       getOut_index b i = getOut_I b (unat i)
     \<and> getOut_I b (unat i) = Inr (qs ! unat i)
     \<and> unat i < length qs)
   \<and> (Multiple_concept n \<and> (\<forall>u\<in>set Uin. operator_eq u create_default) \<longrightarrow>
       N (Blockio_ctor self nm n m Uin Uout f s_in s_out) = n
     \<and> (\<exists>ps0. inp (Blockio_ctor self nm n m Uin Uout f s_in s_out) = Array ps0
           \<and> length ps0 = unat n))
   \<and> (Multiple_concept m \<and> (\<forall>u\<in>set Uout. operator_eq u create_default) \<longrightarrow>
       M (Blockio_ctor self nm n m Uin Uout f s_in s_out) = m
     \<and> (\<exists>qs0. out (Blockio_ctor self nm n m Uin Uout f s_in s_out) = Array qs0
           \<and> length qs0 = unat m))"
proof (intro conjI impI; (elim conjE)?)
  assume many: "Multiple_concept (N b)" and arr: "inp b = Array ps"
    and len: "length ps = unat (N b)" and lt: "i < N b"
  from lt len show in_range: "unat i < length ps"
    by (simp add: word_less_nat_alt)
  from lt have "\<not> N b \<le> i"
    by (simp add: word8_not_le)
  with in_range show "getIn_index b i = getIn_I b (unat i)"
      and "getIn_I b (unat i) = Inr (ps ! unat i)"
    using many arr by (simp_all add: getIn_index_def getIn_I_def)
next
  assume many: "Multiple_concept (M b)" and arr: "out b = Array qs"
    and len: "length qs = unat (M b)" and lt: "i < M b"
  from lt len show in_range: "unat i < length qs"
    by (simp add: word_less_nat_alt)
  from lt have "\<not> M b \<le> i"
    by (simp add: word8_not_le)
  with in_range show "getOut_index b i = getOut_I b (unat i)"
      and "getOut_I b (unat i) = Inr (qs ! unat i)"
    using many arr by (simp_all add: getOut_index_def getOut_I_def)
next
  assume "Multiple_concept n" and "\<forall>u\<in>set Uin. operator_eq u create_default"
  then show "\<exists>ps0. inp (Blockio_ctor self nm n m Uin Uout f s_in s_out) = Array ps0
           \<and> length ps0 = unat n"
    by (simp add: inp_ctor_Array)
next
  assume "Multiple_concept m" and "\<forall>u\<in>set Uout. operator_eq u create_default"
  then show "\<exists>qs0. out (Blockio_ctor self nm n m Uin Uout f s_in s_out) = Array qs0
           \<and> length qs0 = unat m"
    by (simp add: out_ctor_Array)
qed (simp_all add: fields_Blockio_ctor)

theorem runtime_access_same_port_witness:
  "Multiple_concept (N scenario_two_inputs_later)
   \<and> inp scenario_two_inputs_later = Array [port_with 10 1, port_with 20 2]
   \<and> out scenario_two_inputs_later = Array [port_with 30 3, port_with 40 4]
   \<and> (1 :: 8 word) < N scenario_two_inputs_later
   \<and> getIn_index scenario_two_inputs_later 0 = getIn_I scenario_two_inputs_later 0
   \<and> getIn_I scenario_two_inputs_later 0 = Inr (port_with 10 1)
   \<and> getIn_index scenario_two_inputs_later 1 = getIn_I scenario_two_inputs_later 1
   \<and> getIn_I scenario_two_inputs_later 1 = Inr (port_with 20 2)
   \<and> getOut_index scenario_two_inputs_later 1 = getOut_I scenario_two_inputs_later 1
   \<and> getOut_I scenario_two_inputs_later 1 = Inr (port_with 40 4)
   \<and> getIn_index scenario_two_inputs_later 0 \<noteq> getIn_I scenario_two_inputs_later 1"
proof -
  have m: "Multiple_concept 2"
    by (simp add: Multiple_concept_def)
  have d: "port_with 10 1 \<noteq> port_with 20 2"
    by (simp add: port_with_def)
  note f = scenario_two_inputs_later_fields
  show ?thesis
    using runtime_access_same_port [of scenario_two_inputs_later
        "[port_with 10 1, port_with 20 2]" 0 "[port_with 30 3, port_with 40 4]"
        2 "[create_default, create_default]" 3 "''blk''"
        2 "[create_default, create_default]" "\<lambda>st. st"
        "\<lparr>sig_value = 5 :: int, sig_timestamp = Some 9\<rparr>"
        "\<lparr>sig_value = 7 :: int, sig_timestamp = Some 3\<rparr>"]
      runtime_access_same_port [of scenario_two_inputs_later
        "[port_with 10 1, port_with 20 2]" 1 "[port_with 30 3, port_with 40 4]"
        2 "[create_default, create_default]" 3 "''blk''"
        2 "[create_default, create_default]" "\<lambda>st. st"
        "\<lparr>sig_value = 5 :: int, sig_timestamp = Some 9\<rparr>"
        "\<lparr>sig_value = 7 :: int, sig_timestamp = Some 3\<rparr>"]
      m d
    by (simp add: f)
qed

text \<open>
  The claim as the specification states it fails on two inputs that are both declared in
  watt: the declared units are all equal, the compile-time access returns the port, and
  the run-time access does not exist, since \<open>operator[]\<close> is applied to a tuple.
\<close>

theorem runtime_access_equal_units_counterexample:
  "Multiple_concept (N scenario_watt_inputs)
   \<and> operator_eq ([Watt, Watt] ! 1) ([Watt, Watt] ! 0)
   \<and> getIn_index scenario_watt_inputs 0 = Inl ill_formed
   \<and> getIn_I scenario_watt_inputs (unat (0 :: 8 word)) = Inr \<lparr>port_unit = Watt,
        signal = \<lparr>sig_value = 5, sig_timestamp = Some 9\<rparr>, owner = Some 4, owner_set_count = 1\<rparr>"
  by (simp add: scenario_defs ctor_defs access_defs)

section \<open>Properties of the multiplier\<close>

lemma out_Blockio_extend [simp]: "out (Blockio.extend b e) = out b"
  by (cases b) (simp add: Blockio.defs)

text \<open>
  Claim C7, as the code has it. For every multiplier (its output is the single port \<open>p\<close>
  of a \<open>Blockio<0, 1>\<close>), whatever its three value types, and every pair of input signals,
  \<open>run\<close> returns, and afterwards the value of the output signal is the product of the
  value of the first input and the value of the second, converted to the output type; its
  timestamp is the timestamp of the first input, and nothing else of the block or of the
  output port has changed. When the output type is the type of the product, as with the
  default types, the conversion is the identity and the value is the product itself.
\<close>

theorem Mul_run_product:
  assumes "out m = Single p" and "out m0 = Single p0"
  shows "Mul_run times_op to_OutT m = Inr (m\<lparr>out := Single (p\<lparr>signal :=
       \<lparr>sig_value = to_OutT
          (times_op (getValue (getSignal (in1 m))) (getValue (getSignal (in2 m)))),
        sig_timestamp = getTimestamp (getSignal (in1 m))\<rparr>\<rparr>)\<rparr>)
   \<and> Mul_run (*) (\<lambda>x. x) m0 = Inr (m0\<lparr>out := Single (p0\<lparr>signal :=
       \<lparr>sig_value = getValue (getSignal (in1 m0)) * getValue (getSignal (in2 m0)),
        sig_timestamp = getTimestamp (getSignal (in1 m0))\<rparr>\<rparr>)\<rparr>)"
  using assms
  by (simp add: Mul_run_def Let_def getValue_def setValue_def getTimestamp_def
      setTimestamp_def getSignal_def)

theorem Mul_run_product_witness:
  "out scenario_Mul = Single \<lparr>port_unit = create_default,
        signal = \<lparr>sig_value = 0, sig_timestamp = None\<rparr>, owner = Some 1, owner_set_count = 1\<rparr>
   \<and> getSignal (getIn1 scenario_Mul) = \<lparr>sig_value = 3, sig_timestamp = Some 10\<rparr>
   \<and> getSignal (getIn2 scenario_Mul) = \<lparr>sig_value = 4, sig_timestamp = Some 20\<rparr>
   \<and> Mul_run (*) (\<lambda>x. x) scenario_Mul
       = Inr (scenario_Mul\<lparr>out := Single \<lparr>port_unit = create_default,
            signal = \<lparr>sig_value = 12, sig_timestamp = Some 10\<rparr>,
            owner = Some 1, owner_set_count = 1\<rparr>\<rparr>)
   \<and> out scenario_Mul_uint8 = Single \<lparr>port_unit = create_default,
        signal = \<lparr>sig_value = 0, sig_timestamp = None\<rparr>, owner = Some 5, owner_set_count = 1\<rparr>
   \<and> Mul_run (*) ucast scenario_Mul_uint8
       = Inr (scenario_Mul_uint8\<lparr>out := Single \<lparr>port_unit = create_default,
            signal = \<lparr>sig_value = ucast (20 * 20 :: 32 word), sig_timestamp = Some 10\<rparr>,
            owner = Some 5, owner_set_count = 1\<rparr>\<rparr>)"
proof -
  have o: "out scenario_Mul = Single \<lparr>port_unit = create_default,
        signal = \<lparr>sig_value = 0, sig_timestamp = None\<rparr>, owner = Some 1, owner_set_count = 1\<rparr>"
    by (simp add: scenario_defs ctor_defs)
  have o8: "out scenario_Mul_uint8 = Single \<lparr>port_unit = create_default,
        signal = \<lparr>sig_value = 0, sig_timestamp = None\<rparr>, owner = Some 5, owner_set_count = 1\<rparr>"
    by (simp add: scenario_defs ctor_defs)
  have i: "getSignal (getIn1 scenario_Mul) = \<lparr>sig_value = 3, sig_timestamp = Some 10\<rparr>"
    "getSignal (getIn2 scenario_Mul) = \<lparr>sig_value = 4, sig_timestamp = Some 20\<rparr>"
    "getSignal (in1 scenario_Mul_uint8) = \<lparr>sig_value = 20, sig_timestamp = Some 10\<rparr>"
    "getSignal (in2 scenario_Mul_uint8) = \<lparr>sig_value = 20, sig_timestamp = Some 20\<rparr>"
    by (simp_all add: scenario_defs ctor_defs getIn1_def getIn2_def)
  show ?thesis
    using Mul_run_product [OF o8 o, of "(*)" ucast] o o8 i
    by (simp add: signal_defs getIn1_def getIn2_def)
qed

text \<open>
  The claim as the specification states it fails on a \<open>Mul<int, int, uint8_t>\<close> with 20 at
  both inputs: the product is 400, and the value of the output after \<open>run\<close> is 144, the
  product converted to \<open>uint8_t\<close>.
\<close>

theorem Mul_run_product_counterexample:
  "Mul_run (*) ucast scenario_Mul_uint8
       = Inr (scenario_Mul_uint8\<lparr>out := Single \<lparr>port_unit = create_default,
            signal = \<lparr>sig_value = 144, sig_timestamp = Some 10\<rparr>,
            owner = Some 5, owner_set_count = 1\<rparr>\<rparr>)
   \<and> sint (getValue (getSignal (getIn1 scenario_Mul_uint8))
         * getValue (getSignal (getIn2 scenario_Mul_uint8))) = 400
   \<and> uint (144 :: 8 word) \<noteq> 400"
  by (simp add: scenario_defs ctor_defs Mul_run_def signal_defs getIn1_def getIn2_def)

section \<open>Properties of the demultiplexer\<close>





section \<open>Properties of the scalable input\<close>

text \<open>
  Claim C9. For every scalable input \<open>x\<close> and every value \<open>v\<close>, after a setter
  (\<open>setScale\<close>, \<open>setOffset\<close>, \<open>setUnit\<close>, \<open>setMinIn\<close>, \<open>setMaxIn\<close>) the getter of that field
  returns \<open>v\<close> and the four other getters return what they returned before; the
  constructor stores its arguments, and a setter applied to a constructed object takes
  effect, so the five fields stay mutable after construction.
\<close>

theorem ScalableInput_setters_frame:
  "getScale (setScale v x) = v
   \<and> getOffset (setScale v x) = getOffset x \<and> getUnit (setScale v x) = getUnit x
   \<and> getMinIn (setScale v x) = getMinIn x \<and> getMaxIn (setScale v x) = getMaxIn x
   \<and> getOffset (setOffset v x) = v
   \<and> getScale (setOffset v x) = getScale x \<and> getUnit (setOffset v x) = getUnit x
   \<and> getMinIn (setOffset v x) = getMinIn x \<and> getMaxIn (setOffset v x) = getMaxIn x
   \<and> getUnit (setUnit u x) = u
   \<and> getScale (setUnit u x) = getScale x \<and> getOffset (setUnit u x) = getOffset x
   \<and> getMinIn (setUnit u x) = getMinIn x \<and> getMaxIn (setUnit u x) = getMaxIn x
   \<and> getMinIn (setMinIn v x) = v
   \<and> getScale (setMinIn v x) = getScale x \<and> getOffset (setMinIn v x) = getOffset x
   \<and> getUnit (setMinIn v x) = getUnit x \<and> getMaxIn (setMinIn v x) = getMaxIn x
   \<and> getMaxIn (setMaxIn v x) = v
   \<and> getScale (setMaxIn v x) = getScale x \<and> getOffset (setMaxIn v x) = getOffset x
   \<and> getUnit (setMaxIn v x) = getUnit x \<and> getMinIn (setMaxIn v x) = getMinIn x
   \<and> getScale (ScalableInput_ctor ident h sc off mi ma un) = sc
   \<and> getOffset (ScalableInput_ctor ident h sc off mi ma un) = off
   \<and> getUnit (ScalableInput_ctor ident h sc off mi ma un) = un
   \<and> getMinIn (ScalableInput_ctor ident h sc off mi ma un) = mi
   \<and> getMaxIn (ScalableInput_ctor ident h sc off mi ma un) = ma
   \<and> getScale (setScale v (ScalableInput_ctor ident h sc off mi ma un)) = v
   \<and> getOffset (setOffset v (ScalableInput_ctor ident h sc off mi ma un)) = v
   \<and> getUnit (setUnit u (ScalableInput_ctor ident h sc off mi ma un)) = u
   \<and> getMinIn (setMinIn v (ScalableInput_ctor ident h sc off mi ma un)) = v
   \<and> getMaxIn (setMaxIn v (ScalableInput_ctor ident h sc off mi ma un)) = v"
  by (simp add: getScale_def getOffset_def getUnit_def getMinIn_def getMaxIn_def
      setScale_def setOffset_def setUnit_def setMinIn_def setMaxIn_def ScalableInput_ctor_def)

end
